theory Spec2Isabelle
  imports Complex_Main "HOL-Library.AList"
begin

section \<open>Data model of the persistent store (src/core/job\_manager.py)\<close>

text \<open>
  A UTC timestamp is kept by the source as the ISO-8601 text of \<open>datetime.isoformat()\<close>.
  It is represented here by the instant it denotes, counted in microseconds: the text is
  never empty (so it is truthy wherever the source tests it), \<open>fromisoformat\<close> inverts
  \<open>isoformat\<close>, and the text order SQLite sorts by agrees with the order of instants.
  Every function that reads the clock takes the reading as an argument \<open>now\<close>, and
  every function that draws a \<open>uuid4\<close> takes the drawn text as an argument.
\<close>

type_synonym instant = int

text \<open>Values of the open parameter map, as \<open>json.dumps\<close>/\<open>json.loads\<close> carry them.\<close>

datatype json = JNull | JBool bool | JInt int | JReal real | JStr string | JList "json list"

type_synonym params = "(string \<times> json) list"

text \<open>A row of table \<open>jobs\<close>, as \<open>_row_to_dict\<close> returns it.\<close>

record job =
  job_id :: string
  user_id :: string
  status :: string
  progress_percent :: real
  error_message :: "string option"
  input_file :: "string option"
  results_csv :: "string option"
  parameters :: params
  created_at :: instant
  completed_at :: "instant option"
  output_dir :: "string option"

text \<open>A row of table \<open>users\<close> (fields prefixed where a name is shared with \<open>jobs\<close>).\<close>

record user =
  u_user_id :: string
  u_email :: "string option"
  u_password_hash :: "string option"
  u_full_name :: "string option"
  u_role :: string
  u_is_active :: int
  u_created_at :: instant
  u_last_seen_at :: instant

text \<open>A row of table \<open>refresh_sessions\<close>.\<close>

record refresh_session =
  jti :: string
  rs_user_id :: string
  expires_at :: instant
  rs_created_at :: instant
  revoked_at :: "instant option"
  replaced_by_jti :: "string option"

text \<open>
  The database: each table is the list of its rows in insertion (rowid) order.
\<close>

record store =
  users :: "user list"
  refresh_sessions :: "refresh_session list"
  jobs :: "job list"

definition empty_store :: store where
  "empty_store = \<lparr>users = [], refresh_sessions = [], jobs = []\<rparr>"

text \<open>
  Exceptions, by Python class, with the message. \<open>InvalidTokenError\<close> stands for the
  errors of the JWT library, \<open>CollaboratorError\<close> for an exception raised by the input
  loader, the parameter validation, the analysis function or the file system, carrying
  its \<open>str(error)\<close>.
\<close>

datatype error =
    ValueError string
  | KeyError string
  | RuntimeError string
  | IntegrityError string
  | FileNotFoundError string
  | InvalidTokenError string
  | CollaboratorError string

text \<open>An operation returns its result or the exception raised, and the store it leaves.\<close>

type_synonym 'a result = "(error + 'a) \<times> store"

subsection \<open>Messages\<close>

definition apostrophe :: string where
  "apostrophe = [CHR 0x27]"

text \<open>\<open>f"Invalid status '{status}'. Valid: {sorted(VALID_STATUSES)}"\<close>\<close>

definition invalid_status_message :: "string \<Rightarrow> string" where
  "invalid_status_message st =
     ''Invalid status '' @ apostrophe @ st @ apostrophe @ ''. Valid: ['' @
     apostrophe @ ''completed'' @ apostrophe @ '', '' @
     apostrophe @ ''failed'' @ apostrophe @ '', '' @
     apostrophe @ ''processing'' @ apostrophe @ '', '' @
     apostrophe @ ''queued'' @ apostrophe @ '']''"

text \<open>\<open>f"Job '{job_id}' not found for user '{user_id}'."\<close>\<close>

definition job_not_found_message :: "string \<Rightarrow> string \<Rightarrow> string" where
  "job_not_found_message jid uid =
     ''Job '' @ apostrophe @ jid @ apostrophe @ '' not found for user '' @
     apostrophe @ uid @ apostrophe @ ''.''"

subsection \<open>Job Store\<close>

definition VALID_STATUSES :: "string set" where
  "VALID_STATUSES = {''queued'', ''processing'', ''completed'', ''failed''}"

definition validate_status :: "string \<Rightarrow> error + unit" where
  "validate_status st =
     (if st \<notin> VALID_STATUSES then Inl (ValueError (invalid_status_message st)) else Inr ())"

text \<open>\<open>SELECT ... FROM jobs WHERE job_id = ?\<close>: no user in the key.\<close>

definition get_job :: "string \<Rightarrow> store \<Rightarrow> job option" where
  "get_job jid s = find (\<lambda>r. job_id r = jid) (jobs s)"

text \<open>\<open>SELECT ... FROM jobs WHERE job_id = ? AND user_id = ?\<close>\<close>

definition get_job_for_user :: "string \<Rightarrow> string \<Rightarrow> store \<Rightarrow> job option" where
  "get_job_for_user uid jid s = find (\<lambda>r. job_id r = jid \<and> user_id r = uid) (jobs s)"

text \<open>
  Python's \<open>x if x else None\<close> on an optional text: the empty text is falsy.
\<close>

definition truthy_text :: "string option \<Rightarrow> string option" where
  "truthy_text x = (case x of None \<Rightarrow> None | Some t \<Rightarrow> if t = [] then None else Some t)"

text \<open>The keyword arguments of \<open>create_job\<close>; each defaults to \<open>None\<close>.\<close>

record create_kwargs =
  c_input_file :: "string option"
  c_parameters :: "params option"
  c_output_dir :: "string option"
  c_results_csv :: "string option"
  c_job_id :: "string option"

definition no_create_kwargs :: create_kwargs where
  "no_create_kwargs = \<lparr>c_input_file = None, c_parameters = None, c_output_dir = None,
     c_results_csv = None, c_job_id = None\<rparr>"

text \<open>
  \<open>create_job\<close>: \<open>uuid\<close> is the text \<open>str(uuid.uuid4())\<close> would give. The insert
  violates the primary key when a row of that \<open>job_id\<close> exists, whoever owns it.
\<close>

definition create_job :: "instant \<Rightarrow> string \<Rightarrow> string \<Rightarrow> create_kwargs \<Rightarrow> store \<Rightarrow> job result" where
  "create_job now uuid uid kw s =
     (let jid = (case truthy_text (c_job_id kw) of None \<Rightarrow> uuid | Some j \<Rightarrow> j);
          row = \<lparr>job_id = jid, user_id = uid, status = ''queued'', progress_percent = 0,
                 error_message = None,
                 input_file = truthy_text (c_input_file kw),
                 results_csv = truthy_text (c_results_csv kw),
                 parameters = (case c_parameters kw of None \<Rightarrow> [] | Some p \<Rightarrow> p),
                 created_at = now, completed_at = None,
                 output_dir = truthy_text (c_output_dir kw)\<rparr>
      in if \<exists>r \<in> set (jobs s). job_id r = jid
         then (Inl (IntegrityError ''UNIQUE constraint failed: jobs.job_id''), s)
         else (let s' = s\<lparr>jobs := jobs s @ [row]\<rparr>
               in case get_job_for_user uid jid s' of
                    None \<Rightarrow> (Inl (RuntimeError ''Job creation failed.''), s')
                  | Some j \<Rightarrow> (Inr j, s')))"

text \<open>The keyword arguments of \<open>update_status_for_user\<close>; each defaults to \<open>None\<close>.\<close>

record status_kwargs =
  kw_progress_percent :: "real option"
  kw_error_message :: "string option"
  kw_input_file :: "string option"
  kw_parameters :: "params option"
  kw_output_dir :: "string option"
  kw_results_csv :: "string option"
  kw_completed_at :: "instant option"

definition no_kwargs :: status_kwargs where
  "no_kwargs = \<lparr>kw_progress_percent = None, kw_error_message = None, kw_input_file = None,
     kw_parameters = None, kw_output_dir = None, kw_results_csv = None,
     kw_completed_at = None\<rparr>"

definition or_else :: "'a option \<Rightarrow> 'a option \<Rightarrow> 'a option" where
  "or_else x y = (case x of None \<Rightarrow> y | Some v \<Rightarrow> Some v)"

text \<open>
  The row \<open>update_status_for_user\<close> writes over \<open>existing\<close>: \<open>x if x is not None else
  existing[...]\<close> for each field, and the rule for \<open>completed_at\<close>.
\<close>

definition updated_row :: "instant \<Rightarrow> string \<Rightarrow> status_kwargs \<Rightarrow> job \<Rightarrow> job \<Rightarrow> job" where
  "updated_row now st kw existing r =
     (let final_completed_at = kw_completed_at kw;
          final_completed_at =
            (if st \<in> {''completed'', ''failed''} \<and> final_completed_at = None
             then Some now else final_completed_at);
          final_completed_at =
            (if st \<in> {''queued'', ''processing''} then None else final_completed_at);
          progress =
            (case kw_progress_percent kw of
               Some p \<Rightarrow> p
             | None \<Rightarrow>
                 if st = ''completed'' then 100
                 else if st \<in> {''queued'', ''failed''} then progress_percent existing
                 else progress_percent existing);
          new_input_file = or_else (kw_input_file kw) (input_file existing);
          new_output_dir = or_else (kw_output_dir kw) (output_dir existing);
          new_results_csv = or_else (kw_results_csv kw) (results_csv existing);
          new_parameters = (case kw_parameters kw of Some p \<Rightarrow> p | None \<Rightarrow> parameters existing);
          new_error = or_else (kw_error_message kw) (error_message existing)
      in r\<lparr>status := st, progress_percent := progress, error_message := new_error,
            input_file := new_input_file, results_csv := new_results_csv,
            parameters := new_parameters, completed_at := final_completed_at,
            output_dir := new_output_dir\<rparr>)"

text \<open>\<open>UPDATE jobs SET ... WHERE job_id = ? AND user_id = ?\<close>\<close>

definition update_rows :: "string \<Rightarrow> string \<Rightarrow> (job \<Rightarrow> job) \<Rightarrow> store \<Rightarrow> store" where
  "update_rows uid jid f s =
     s\<lparr>jobs := map (\<lambda>r. if job_id r = jid \<and> user_id r = uid then f r else r) (jobs s)\<rparr>"

definition update_status_for_user ::
  "instant \<Rightarrow> string \<Rightarrow> string \<Rightarrow> string \<Rightarrow> status_kwargs \<Rightarrow> store \<Rightarrow> job result" where
  "update_status_for_user now uid jid st kw s =
     (case validate_status st of
        Inl e \<Rightarrow> (Inl e, s)
      | Inr _ \<Rightarrow>
          (case get_job_for_user uid jid s of
             None \<Rightarrow> (Inl (KeyError (job_not_found_message jid uid)), s)
           | Some existing \<Rightarrow>
               (let s' = update_rows uid jid (updated_row now st kw existing) s
                in case get_job_for_user uid jid s' of
                     None \<Rightarrow> (Inl (RuntimeError ''Job update failed.''), s')
                   | Some j \<Rightarrow> (Inr j, s'))))"

definition update_progress_for_user :: "string \<Rightarrow> string \<Rightarrow> real \<Rightarrow> store \<Rightarrow> job result" where
  "update_progress_for_user uid jid p s =
     (case get_job_for_user uid jid s of
        None \<Rightarrow> (Inl (KeyError (job_not_found_message jid uid)), s)
      | Some existing \<Rightarrow>
          (let s' = update_rows uid jid (\<lambda>r. r\<lparr>progress_percent := p\<rparr>) s
           in case get_job_for_user uid jid s' of
                None \<Rightarrow> (Inl (RuntimeError ''Progress update failed.''), s')
              | Some j \<Rightarrow> (Inr j, s')))"


text \<open>
  \<open>Path(original_filename).suffix\<close>: the final component from its last dot on, unless
  that dot is its first or last character.
\<close>

definition path_name :: "string \<Rightarrow> string" where
  "path_name p = rev (takeWhile (\<lambda>c. c \<noteq> CHR ''/'') (rev p))"

definition path_suffix :: "string \<Rightarrow> string" where
  "path_suffix p =
     (let name = path_name p;
          after = length (takeWhile (\<lambda>c. c \<noteq> CHR ''.'') (rev name))
      in if after = length name then []
         else (let i = length name - after - 1
               in if 0 < i \<and> i < length name - 1 then drop i name else []))"

definition get_upload_path :: "string \<Rightarrow> string \<Rightarrow> string \<Rightarrow> string \<Rightarrow> string" where
  "get_upload_path uploads_dir uid jid original_filename =
     (let ext = (if path_suffix original_filename = [] then ''.csv''
                 else path_suffix original_filename)
      in uploads_dir @ ''/'' @ uid @ ''/'' @ jid @ ''/input'' @ ext)"

text \<open>
  \<open>save_upload\<close>: the bytes go to the file system, which is outside the store; the
  job is then marked \<open>queued\<close> with \<open>input_file\<close> set.
\<close>

definition save_upload ::
  "instant \<Rightarrow> string \<Rightarrow> string \<Rightarrow> string \<Rightarrow> string \<Rightarrow> store \<Rightarrow> string result" where
  "save_upload now uploads_dir uid jid original_filename s =
     (let path = get_upload_path uploads_dir uid jid original_filename
      in case update_status_for_user now uid jid ''queued''
                (no_kwargs\<lparr>kw_input_file := Some path\<rparr>) s of
           (Inl e, s') \<Rightarrow> (Inl e, s')
         | (Inr _, s') \<Rightarrow> (Inr path, s'))"

section \<open>Request handler and background execution (api.py)\<close>

text \<open>What a handler raises: an \<open>HTTPException\<close>, or an exception it does not catch.\<close>

datatype http_error = HTTPException nat string | Uncaught error

record process_response =
  pr_job_id :: string
  pr_status :: string
  pr_progress_percent :: real
  pr_user_id :: string
  pr_message :: string

text \<open>A scheduled background task: the arguments \<open>(user_id, job_id)\<close> of \<open>_run_analysis\<close>.\<close>

type_synonym task = "string \<times> string"

definition not_found_detail :: "string \<Rightarrow> string" where
  "not_found_detail jid = ''Job '' @ apostrophe @ jid @ apostrophe @ '' not found''"

definition cannot_be_processed_detail :: "string \<Rightarrow> string \<Rightarrow> string" where
  "cannot_be_processed_detail jid st =
     ''Job '' @ apostrophe @ jid @ apostrophe @ '' cannot be processed (current status: '' @
     st @ '')''"

text \<open>
  \<open>process_job\<close>, for the authenticated \<open>user_id\<close>: the response or the error, the
  store, and the tasks added to \<open>background_tasks\<close>.
\<close>

definition process_job ::
  "instant \<Rightarrow> string \<Rightarrow> string \<Rightarrow> store \<Rightarrow> (http_error + process_response) \<times> store \<times> task list" where
  "process_job now uid jid s =
     (case get_job_for_user uid jid s of
        None \<Rightarrow> (Inl (HTTPException 404 (not_found_detail jid)), s, [])
      | Some j \<Rightarrow>
          if status j \<noteq> ''queued''
          then (Inl (HTTPException 400 (cannot_be_processed_detail jid (status j))), s, [])
          else (case update_status_for_user now uid jid ''processing''
                       (no_kwargs\<lparr>kw_progress_percent := Some 1, kw_error_message := None\<rparr>) s of
                  (Inl e, s') \<Rightarrow> (Inl (Uncaught e), s', [])
                | (Inr _, s') \<Rightarrow>
                    (Inr \<lparr>pr_job_id = jid, pr_status = ''processing'', pr_progress_percent = 1,
                          pr_user_id = uid, pr_message = ''Processing started''\<rparr>,
                     s', [(uid, jid)])))"

text \<open>
  \<open>progress_callback\<close>, the closure \<open>_run_analysis\<close> hands to the analysis function
  (the list \<open>progress_messages\<close> it appends to is local and never read).
\<close>

definition progress_callback :: "string \<Rightarrow> string \<Rightarrow> real \<Rightarrow> store \<Rightarrow> unit result" where
  "progress_callback uid jid progress s =
     (let clamped = max 10 (min 95 progress)
      in case update_progress_for_user uid jid clamped s of
           (Inl e, s') \<Rightarrow> (Inl e, s')
         | (Inr _, s') \<Rightarrow> (Inr (), s'))"

text \<open>The analysis function calls the callback with each value in turn; an exception
  of the callback ends it.\<close>

fun report_all :: "string \<Rightarrow> string \<Rightarrow> real list \<Rightarrow> store \<Rightarrow> unit result" where
  "report_all uid jid [] s = (Inr (), s)"
| "report_all uid jid (p # ps) s =
     (case progress_callback uid jid p s of
        (Inl e, s') \<Rightarrow> (Inl e, s')
      | (Inr _, s') \<Rightarrow> report_all uid jid ps s')"

text \<open>
  What the collaborators of one execution do (they are outside this repository's
  core): whether the input path exists; the \<open>str(error)\<close> of the exception that
  \<open>mkdir\<close>, \<open>DataLoader.load\<close> or the \<open>ProcessingParameters\<close> validation raises, if any;
  the progress values \<open>AnalysisEngine.run_analysis\<close> reports, and then the exception it
  raises or the \<open>models_run\<close> entry of the dictionary it returns;
  the exception \<open>ModelRunner.build_contributions_csv\<close> raises, or the number of rows of
  its frame and its model type; and \<open>round(elapsed, 3)\<close>.
\<close>

record collaborators =
  path_exists :: bool
  mkdir_raises :: "string option"
  load_raises :: "string option"
  validation_raises :: "string option"
  reported :: "real list"
  analysis_outcome :: "string + json option"
  build_outcome :: "string + int \<times> string"
  elapsed_rounded :: real

text \<open>
  \<open>str(error)\<close>. A \<open>KeyError\<close> prints the \<open>repr\<close> of its message; the messages of this
  program hold apostrophes, so \<open>repr\<close> wraps them in double quotes (as long as the ids
  hold no double quote, backslash or control character).
\<close>

fun str_error :: "error \<Rightarrow> string" where
  "str_error (ValueError m) = m"
| "str_error (KeyError m) = [CHR 0x22] @ m @ [CHR 0x22]"
| "str_error (RuntimeError m) = m"
| "str_error (IntegrityError m) = m"
| "str_error (FileNotFoundError m) = m"
| "str_error (InvalidTokenError m) = m"
| "str_error (CollaboratorError m) = m"

text \<open>
  The \<open>try\<close> block of \<open>_run_analysis\<close>: the exception it raises, if any, and the store
  at that moment. \<open>data_dir\<close> is \<open>settings.data_dir\<close>.
\<close>

definition analysis_body ::
  "string \<Rightarrow> collaborators \<Rightarrow> instant \<Rightarrow> string \<Rightarrow> string \<Rightarrow> store \<Rightarrow> error option \<times> store" where
  "analysis_body data_dir env now uid jid s =
     (case get_job_for_user uid jid s of
        None \<Rightarrow> (None, s)
      | Some j \<Rightarrow>
     (case truthy_text (input_file j) of
        None \<Rightarrow> (Some (ValueError ''Input file is missing for this job''), s)
      | Some input_path \<Rightarrow>
     if \<not> path_exists env
     then (Some (FileNotFoundError (''Input file not found: '' @ input_path)), s)
     else
     (case mkdir_raises env of Some m \<Rightarrow> (Some (CollaboratorError m), s) | None \<Rightarrow>
     (case load_raises env of Some m \<Rightarrow> (Some (CollaboratorError m), s) | None \<Rightarrow>
     (case update_progress_for_user uid jid 10 s of
        (Inl e, s1) \<Rightarrow> (Some e, s1)
      | (Inr _, s1) \<Rightarrow>
     (case validation_raises env of Some m \<Rightarrow> (Some (CollaboratorError m), s1) | None \<Rightarrow>
     (case report_all uid jid (reported env) s1 of
        (Inl e, s2) \<Rightarrow> (Some e, s2)
      | (Inr _, s2) \<Rightarrow>
     (case analysis_outcome env of Inl m \<Rightarrow> (Some (CollaboratorError m), s2) | Inr models_run \<Rightarrow>
     (case build_outcome env of Inl m \<Rightarrow> (Some (CollaboratorError m), s2) | Inr (n, model_type) \<Rightarrow>
       (let out_dir = data_dir @ ''/outputs/'' @ uid @ ''/'' @ jid;
            csv_path = out_dir @ ''/contributions.csv'';
            current_params = parameters j;
            updated_params =
              AList.update ''models_run'' (case models_run of None \<Rightarrow> JList [] | Some v \<Rightarrow> v)
             (AList.update ''processing_time_seconds'' (JReal (elapsed_rounded env))
             (AList.update ''model_type'' (JStr model_type)
             (AList.update ''sample_count'' (JInt n) current_params)))
        in case update_status_for_user now uid jid ''completed''
                  \<lparr>kw_progress_percent = Some 100, kw_error_message = None,
                   kw_input_file = None, kw_parameters = Some updated_params,
                   kw_output_dir = Some out_dir, kw_results_csv = Some csv_path,
                   kw_completed_at = None\<rparr> s2 of
             (Inl e, s3) \<Rightarrow> (Some e, s3)
           | (Inr _, s3) \<Rightarrow> (None, s3)))))))))))"

text \<open>
  \<open>_run_analysis\<close>: the \<open>try\<close> block and its \<open>except Exception\<close> handler. \<open>Inl\<close> is an
  exception that leaves the function.
\<close>

definition run_analysis ::
  "string \<Rightarrow> collaborators \<Rightarrow> instant \<Rightarrow> string \<Rightarrow> string \<Rightarrow> store \<Rightarrow> unit result" where
  "run_analysis data_dir env now uid jid s =
     (case analysis_body data_dir env now uid jid s of
        (None, s1) \<Rightarrow> (Inr (), s1)
      | (Some err, s1) \<Rightarrow>
          (let existing = get_job_for_user uid jid s1;
               params = (case existing of None \<Rightarrow> [] | Some j \<Rightarrow> parameters j)
           in case update_status_for_user now uid jid ''failed''
                     (no_kwargs\<lparr>kw_error_message := Some (str_error err),
                                kw_progress_percent := Some 100,
                                kw_parameters := Some params\<rparr>) s1 of
                (Inl e, s2) \<Rightarrow> (Inl e, s2)
              | (Inr _, s2) \<Rightarrow> (Inr (), s2)))"

section \<open>Sessions (src/core/auth\_service.py and the session table of job\_manager.py)\<close>

record settings =
  jwt_secret :: string
  jwt_issuer :: string
  jwt_audience :: string
  access_token_ttl_minutes :: int
  refresh_token_ttl_days :: int

text \<open>The claim set \<open>_build_claims\<close> builds; \<open>iat\<close> and \<open>exp\<close> are whole seconds, and
  \<open>token_jti\<close> is the claim \<open>jti\<close>.\<close>

record claims =
  sub :: string
  email :: "string option"
  role :: string
  token_type :: string
  token_jti :: string
  iat :: int
  exp :: int
  iss :: string
  aud :: string

text \<open>
  A signed token, abstractly: the key it was signed with and the claims it carries.
  \<open>decode\<close> is \<open>_decode\<close>, that is the JWT library's \<open>decode\<close> with the settings'
  secret, issuer and audience: it accepts a token signed with the secret, not expired at
  \<open>now\<close>, of the expected issuer and audience, and raises the library's error otherwise.
\<close>

record token =
  signing_key :: string
  payload :: claims

definition encode :: "settings \<Rightarrow> claims \<Rightarrow> token" where
  "encode cfg c = \<lparr>signing_key = jwt_secret cfg, payload = c\<rparr>"

definition decode :: "settings \<Rightarrow> instant \<Rightarrow> token \<Rightarrow> error + claims" where
  "decode cfg now t =
     (if signing_key t \<noteq> jwt_secret cfg
      then Inl (InvalidTokenError ''Signature verification failed'')
      else if exp (payload t) * 1000000 \<le> now
      then Inl (InvalidTokenError ''Signature has expired'')
      else if iss (payload t) \<noteq> jwt_issuer cfg then Inl (InvalidTokenError ''Invalid issuer'')
      else if aud (payload t) \<noteq> jwt_audience cfg then Inl (InvalidTokenError ''Invalid audience'')
      else Inr (payload t))"

text \<open>\<open>int(value.timestamp())\<close>: whole seconds, truncated towards zero.\<close>

definition timestamp_seconds :: "instant \<Rightarrow> int" where
  "timestamp_seconds t = (if 0 \<le> t then t div 1000000 else - ((- t) div 1000000))"

definition build_claims :: "instant \<Rightarrow> user \<Rightarrow> string \<Rightarrow> string \<Rightarrow> instant \<Rightarrow> settings \<Rightarrow> claims" where
  "build_claims now u ttype j expires cfg =
     \<lparr>sub = u_user_id u, email = u_email u, role = u_role u, token_type = ttype,
      token_jti = j, iat = timestamp_seconds now, exp = timestamp_seconds expires,
      iss = jwt_issuer cfg, aud = jwt_audience cfg\<rparr>"

definition get_user_by_id :: "string \<Rightarrow> store \<Rightarrow> user option" where
  "get_user_by_id uid s = find (\<lambda>u. u_user_id u = uid) (users s)"

definition get_refresh_session :: "string \<Rightarrow> store \<Rightarrow> refresh_session option" where
  "get_refresh_session j s = find (\<lambda>r. jti r = j) (refresh_sessions s)"

text \<open>\<open>create_refresh_session\<close>: \<open>jti\<close> is the primary key of the table.\<close>

definition create_refresh_session :: "instant \<Rightarrow> string \<Rightarrow> string \<Rightarrow> instant \<Rightarrow> store \<Rightarrow> unit result" where
  "create_refresh_session now j uid expires s =
     (if \<exists>r \<in> set (refresh_sessions s). jti r = j
      then (Inl (IntegrityError ''UNIQUE constraint failed: refresh_sessions.jti''), s)
      else (Inr (),
            s\<lparr>refresh_sessions := refresh_sessions s @
                [\<lparr>jti = j, rs_user_id = uid, expires_at = expires, rs_created_at = now,
                  revoked_at = None, replaced_by_jti = None\<rparr>]\<rparr>))"

text \<open>
  \<open>UPDATE refresh_sessions SET revoked_at = ?, replaced_by_jti = COALESCE(?, replaced_by_jti)
  WHERE jti = ?\<close>
\<close>

definition revoke_refresh_session :: "instant \<Rightarrow> string \<Rightarrow> string option \<Rightarrow> store \<Rightarrow> store" where
  "revoke_refresh_session now j replaced_by s =
     s\<lparr>refresh_sessions :=
         map (\<lambda>r. if jti r = j
                  then r\<lparr>revoked_at := Some now,
                         replaced_by_jti := or_else replaced_by (replaced_by_jti r)\<rparr>
                  else r)
             (refresh_sessions s)\<rparr>"

record token_pair =
  access_token :: token
  refresh_token :: token
  pair_token_type :: string
  expires_in :: int

text \<open>\<open>issue_token_pair\<close>; \<open>access_jti\<close> and \<open>refresh_jti\<close> are the two uuids drawn.\<close>

definition issue_token_pair ::
  "settings \<Rightarrow> instant \<Rightarrow> string \<Rightarrow> string \<Rightarrow> user \<Rightarrow> store \<Rightarrow> token_pair result" where
  "issue_token_pair cfg now access_jti refresh_jti u s =
     (let access_exp = now + access_token_ttl_minutes cfg * 60 * 1000000;
          refresh_exp = now + refresh_token_ttl_days cfg * 86400 * 1000000;
          access_claims = build_claims now u ''access'' access_jti access_exp cfg;
          refresh_claims = build_claims now u ''refresh'' refresh_jti refresh_exp cfg;
          refresh_tok = encode cfg refresh_claims
      in case create_refresh_session now refresh_jti (u_user_id u) refresh_exp s of
           (Inl e, s') \<Rightarrow> (Inl e, s')
         | (Inr _, s') \<Rightarrow>
             (Inr \<lparr>access_token = encode cfg access_claims, refresh_token = refresh_tok,
                   pair_token_type = ''bearer'',
                   expires_in = access_token_ttl_minutes cfg * 60\<rparr>, s'))"

definition refresh_tokens ::
  "settings \<Rightarrow> instant \<Rightarrow> string \<Rightarrow> string \<Rightarrow> token \<Rightarrow> store \<Rightarrow> token_pair result" where
  "refresh_tokens cfg now access_jti refresh_jti tok s =
     (case decode cfg now tok of
        Inl e \<Rightarrow> (Inl e, s)
      | Inr c \<Rightarrow>
     if token_type c \<noteq> ''refresh'' then (Inl (ValueError ''Invalid token type''), s)
     else if token_jti c = [] then (Inl (ValueError ''Refresh token missing jti''), s)
     else
     (case get_refresh_session (token_jti c) s of
        None \<Rightarrow> (Inl (ValueError ''Refresh session not found''), s)
      | Some session \<Rightarrow>
     if revoked_at session \<noteq> None then (Inl (ValueError ''Refresh token revoked''), s)
     else if expires_at session \<le> now then (Inl (ValueError ''Refresh token expired''), s)
     else
     (case get_user_by_id (rs_user_id session) s of
        None \<Rightarrow> (Inl (ValueError ''User is not active''), s)
      | Some u \<Rightarrow>
     if u_is_active u = 0 then (Inl (ValueError ''User is not active''), s)
     else
     (case issue_token_pair cfg now access_jti refresh_jti u s of
        (Inl e, s1) \<Rightarrow> (Inl e, s1)
      | (Inr new_tokens, s1) \<Rightarrow>
     (case decode cfg now (refresh_token new_tokens) of
        Inl e \<Rightarrow> (Inl e, s1)
      | Inr new_claims \<Rightarrow>
          (Inr new_tokens,
           revoke_refresh_session now (token_jti c) (Some (token_jti new_claims)) s1))))))"

definition revoke_refresh_token :: "settings \<Rightarrow> instant \<Rightarrow> token \<Rightarrow> store \<Rightarrow> unit result" where
  "revoke_refresh_token cfg now tok s =
     (case decode cfg now tok of
        Inl e \<Rightarrow> (Inl e, s)
      | Inr c \<Rightarrow>
          if token_type c \<noteq> ''refresh'' then (Inl (ValueError ''Invalid token type''), s)
          else if token_jti c = [] then (Inl (ValueError ''Refresh token missing jti''), s)
          else (Inr (), revoke_refresh_session now (token_jti c) None s))"

section \<open>Sequences of store operations\<close>

datatype command =
    CreateJob instant string string create_kwargs
  | UpdateStatus instant string string string status_kwargs
  | UpdateProgress string string real
  | SaveUpload instant string string string string
  | CreateRefreshSession instant string string instant
  | RevokeRefreshSession instant string "string option"

fun exec :: "command \<Rightarrow> store \<Rightarrow> store" where
  "exec (CreateJob now uuid uid kw) s = snd (create_job now uuid uid kw s)"
| "exec (UpdateStatus now uid jid st kw) s = snd (update_status_for_user now uid jid st kw s)"
| "exec (UpdateProgress uid jid p) s = snd (update_progress_for_user uid jid p s)"
| "exec (SaveUpload now dir uid jid name) s = snd (save_upload now dir uid jid name s)"
| "exec (CreateRefreshSession now j uid expires) s = snd (create_refresh_session now j uid expires s)"
| "exec (RevokeRefreshSession now j replaced_by) s = revoke_refresh_session now j replaced_by s"

fun run :: "command list \<Rightarrow> store \<Rightarrow> store" where
  "run [] s = s"
| "run (c # cs) s = run cs (exec c s)"

section \<open>Invariants\<close>

definition terminal :: "string \<Rightarrow> bool" where
  "terminal st = (st = ''completed'' \<or> st = ''failed'')"

definition completed_at_ok :: "job \<Rightarrow> bool" where
  "completed_at_ok j = ((completed_at j \<noteq> None) = terminal (status j))"

definition job_inv :: "store \<Rightarrow> bool" where
  "job_inv s = list_all completed_at_ok (jobs s)"

definition progress_ok :: "real \<Rightarrow> bool" where
  "progress_ok p = (0 \<le> p \<and> p \<le> 100)"

definition progress_inv :: "store \<Rightarrow> bool" where
  "progress_inv s = list_all (\<lambda>j. progress_ok (progress_percent j)) (jobs s)"

fun supplied_progress_ok :: "command \<Rightarrow> bool" where
  "supplied_progress_ok (UpdateStatus now uid jid st kw) =
     (case kw_progress_percent kw of None \<Rightarrow> True | Some p \<Rightarrow> progress_ok p)"
| "supplied_progress_ok (UpdateProgress uid jid p) = progress_ok p"
| "supplied_progress_ok _ = True"



text \<open>The session of a \<open>jti\<close> exists and carries a \<open>revoked_at\<close>.\<close>

definition is_revoked :: "string \<Rightarrow> store \<Rightarrow> bool" where
  "is_revoked j s =
     (case get_refresh_session j s of None \<Rightarrow> False | Some r \<Rightarrow> revoked_at r \<noteq> None)"

section \<open>Example stores\<close>

text \<open>A job of user \<open>alice\<close>, as created, and after it completed.\<close>

definition queued_store :: store where
  "queued_store = run [CreateJob 5 ''j1'' ''alice'' no_create_kwargs] empty_store"

definition completed_store :: store where
  "completed_store =
     run [CreateJob 5 ''j1'' ''alice'' no_create_kwargs,
          UpdateStatus 7 ''alice'' ''j1'' ''completed'' no_kwargs] empty_store"

text \<open>A failed job with an error message, queued again by a new upload.\<close>

definition requeued_store :: store where
  "requeued_store =
     run [CreateJob 5 ''j1'' ''alice'' no_create_kwargs,
          UpdateStatus 7 ''alice'' ''j1'' ''failed'' (no_kwargs\<lparr>kw_error_message := Some ''bad''\<rparr>),
          SaveUpload 8 ''/data/uploads'' ''alice'' ''j1'' ''samples.csv''] empty_store"

text \<open>An uploaded job that \<open>process_job\<close> has started, and collaborators whose analysis
  reports progress 30 and then raises \<open>boom\<close>.\<close>

definition processing_store :: store where
  "processing_store =
     run [CreateJob 5 ''j1'' ''alice''
            (no_create_kwargs\<lparr>c_parameters := Some [(''dataset_name'', JStr ''rivers'')]\<rparr>),
          SaveUpload 6 ''/data/uploads'' ''alice'' ''j1'' ''samples.csv'',
          UpdateStatus 9 ''alice'' ''j1'' ''processing''
            (no_kwargs\<lparr>kw_progress_percent := Some 1\<rparr>)] empty_store"

definition boom_env :: collaborators where
  "boom_env = \<lparr>path_exists = True, mkdir_raises = None, load_raises = None,
     validation_raises = None, reported = [30], analysis_outcome = Inl ''boom'',
     build_outcome = Inr (0, ''nitrate''), elapsed_rounded = 0\<rparr>"

text \<open>The default settings, a registered user, and the store and refresh token that
  \<open>issue_token_pair\<close> gives for that user at second 1.\<close>

definition cfg0 :: settings where
  "cfg0 = \<lparr>jwt_secret = ''dev-secret-change-me'', jwt_issuer = ''oasis-backend'',
     jwt_audience = ''oasis-desktop'', access_token_ttl_minutes = 30,
     refresh_token_ttl_days = 14\<rparr>"

definition alice_user :: user where
  "alice_user = \<lparr>u_user_id = ''alice'', u_email = Some ''alice@example.com'',
     u_password_hash = Some ''hash'', u_full_name = None, u_role = ''user'', u_is_active = 1,
     u_created_at = 0, u_last_seen_at = 0\<rparr>"

definition issued_store :: store where
  "issued_store =
     snd (issue_token_pair cfg0 1000000 ''a1'' ''r1'' alice_user (empty_store\<lparr>users := [alice_user]\<rparr>))"

definition issued_token :: token where
  "issued_token =
     encode cfg0 (build_claims 1000000 alice_user ''refresh'' ''r1''
                    (1000000 + 14 * 86400 * 1000000) cfg0)"

section \<open>The job store: results of the operations\<close>

lemma find_map_update:
  assumes "\<And>r. P r \<Longrightarrow> P (f r)"
  shows "find P (map (\<lambda>r. if P r then f r else r) xs) = map_option f (find P xs)"
  using assms by (induction xs) auto

lemma updated_row_key [simp]:
  "job_id (updated_row now st kw e r) = job_id r" "user_id (updated_row now st kw e r) = user_id r"
  by (simp_all add: updated_row_def Let_def)

lemma updated_row_status [simp]: "status (updated_row now st kw e r) = st"
  by (simp add: updated_row_def Let_def)

lemma get_after_update_rows:
  assumes "\<And>r. job_id (f r) = job_id r \<and> user_id (f r) = user_id r"
  shows "get_job_for_user uid jid (update_rows uid jid f s) = map_option f (get_job_for_user uid jid s)"
  unfolding get_job_for_user_def update_rows_def
  using find_map_update [of "\<lambda>r. job_id r = jid \<and> user_id r = uid" f "jobs s"] assms
  by simp

lemma update_status_for_user_eq:
  "update_status_for_user now uid jid st kw s =
     (if st \<notin> VALID_STATUSES then (Inl (ValueError (invalid_status_message st)), s)
      else case get_job_for_user uid jid s of
             None \<Rightarrow> (Inl (KeyError (job_not_found_message jid uid)), s)
           | Some existing \<Rightarrow>
               (Inr (updated_row now st kw existing existing),
                update_rows uid jid (updated_row now st kw existing) s))"
  by (simp add: update_status_for_user_def validate_status_def get_after_update_rows Let_def
           split: option.splits)

lemma update_progress_for_user_eq:
  "update_progress_for_user uid jid p s =
     (case get_job_for_user uid jid s of
        None \<Rightarrow> (Inl (KeyError (job_not_found_message jid uid)), s)
      | Some existing \<Rightarrow>
          (Inr (existing\<lparr>progress_percent := p\<rparr>),
           update_rows uid jid (\<lambda>r. r\<lparr>progress_percent := p\<rparr>) s))"
  by (simp add: update_progress_for_user_def get_after_update_rows Let_def split: option.splits)

lemma create_job_eq:
  "create_job now uuid uid kw s =
     (let jid = (case truthy_text (c_job_id kw) of None \<Rightarrow> uuid | Some j \<Rightarrow> j);
          row = \<lparr>job_id = jid, user_id = uid, status = ''queued'', progress_percent = 0,
                 error_message = None,
                 input_file = truthy_text (c_input_file kw),
                 results_csv = truthy_text (c_results_csv kw),
                 parameters = (case c_parameters kw of None \<Rightarrow> [] | Some p \<Rightarrow> p),
                 created_at = now, completed_at = None,
                 output_dir = truthy_text (c_output_dir kw)\<rparr>
      in if \<exists>r \<in> set (jobs s). job_id r = jid
         then (Inl (IntegrityError ''UNIQUE constraint failed: jobs.job_id''), s)
         else (Inr row, s\<lparr>jobs := jobs s @ [row]\<rparr>))"
proof -
  have *: "find P (xs @ [x]) = Some x" if "\<forall>r\<in>set xs. \<not> P r" "P x" for P and xs :: "job list" and x
    using that by (induction xs) auto
  show ?thesis
    unfolding create_job_def Let_def get_job_for_user_def
    by (auto simp: * split: option.splits)
qed

lemma save_upload_snd:
  "snd (save_upload now dir uid jid name s) =
     snd (update_status_for_user now uid jid ''queued''
            (no_kwargs\<lparr>kw_input_file := Some (get_upload_path dir uid jid name)\<rparr>) s)"
  by (simp add: save_upload_def Let_def split: prod.splits sum.splits)

lemma updated_row_completed_at_ok:
  "st \<in> VALID_STATUSES \<Longrightarrow> completed_at_ok (updated_row now st kw e r)"
  by (auto simp: completed_at_ok_def updated_row_def Let_def VALID_STATUSES_def terminal_def)

lemma job_inv_update_rows:
  assumes "job_inv s" and "\<And>r. completed_at_ok r \<Longrightarrow> completed_at_ok (f r)"
  shows "job_inv (update_rows uid jid f s)"
  using assms by (auto simp: job_inv_def update_rows_def list_all_iff)

lemma job_inv_update_status:
  "job_inv s \<Longrightarrow> job_inv (snd (update_status_for_user now uid jid st kw s))"
  by (auto simp: update_status_for_user_eq job_inv_update_rows updated_row_completed_at_ok
           split: option.splits)

lemma job_inv_update_progress:
  "job_inv s \<Longrightarrow> job_inv (snd (update_progress_for_user uid jid p s))"
  by (auto simp: update_progress_for_user_eq completed_at_ok_def
           intro!: job_inv_update_rows split: option.splits)

lemma job_inv_create_job:
  "job_inv s \<Longrightarrow> job_inv (snd (create_job now uuid uid kw s))"
  by (auto simp: create_job_eq Let_def job_inv_def completed_at_ok_def terminal_def)


lemma job_inv_exec: "job_inv s \<Longrightarrow> job_inv (exec c s)"
  by (cases c)
     (simp_all add: job_inv_update_status job_inv_update_progress job_inv_create_job
        save_upload_snd,
      simp_all add: job_inv_def create_refresh_session_def revoke_refresh_session_def)

lemma job_inv_run: "job_inv s \<Longrightarrow> job_inv (run cs s)"
  by (induction cs arbitrary: s) (simp_all add: job_inv_exec)

lemma job_inv_empty: "job_inv empty_store"
  by (simp add: job_inv_def empty_store_def)

text \<open>
  C1: through every sequence of store operations, \<open>completed_at\<close> of every job is
  non-null exactly when its status is \<open>completed\<close> or \<open>failed\<close> (\<open>job_inv\<close>); the job a
  transition to \<open>queued\<close> or \<open>processing\<close> stores has \<open>completed_at\<close> null, and the job a
  transition to a terminal status with no \<open>completed_at\<close> supplied stores has the update
  time.
\<close>

theorem completed_at_iff_terminal:
  "(\<forall>j \<in> set (jobs (run cs empty_store)).
      (completed_at j \<noteq> None) = (status j = ''completed'' \<or> status j = ''failed'')) \<and>
   (job_inv s0 \<longrightarrow> job_inv (run cs s0)) \<and>
   (update_status_for_user now uid jid st kw s = (Inr j, s') \<longrightarrow>
      get_job_for_user uid jid s' = Some j \<and>
      (st \<in> {''queued'', ''processing''} \<longrightarrow> completed_at j = None) \<and>
      (st \<in> {''completed'', ''failed''} \<longrightarrow> kw_completed_at kw = None \<longrightarrow>
         completed_at j = Some now))"
proof (intro conjI impI)
  have "job_inv (run cs empty_store)" by (rule job_inv_run [OF job_inv_empty])
  then show "\<forall>j \<in> set (jobs (run cs empty_store)).
      (completed_at j \<noteq> None) = (status j = ''completed'' \<or> status j = ''failed'')"
    by (simp add: job_inv_def list_all_iff completed_at_ok_def terminal_def)
next
  assume "job_inv s0" then show "job_inv (run cs s0)" by (rule job_inv_run)
next
  assume u: "update_status_for_user now uid jid st kw s = (Inr j, s')"
  then obtain e where e: "get_job_for_user uid jid s = Some e"
    and j: "j = updated_row now st kw e e"
    and s': "s' = update_rows uid jid (updated_row now st kw e) s"
    by (auto simp: update_status_for_user_eq split: if_splits option.splits)
  show "get_job_for_user uid jid s' = Some j"
    by (simp add: s' j e get_after_update_rows)
  { assume "st \<in> {''queued'', ''processing''}"
    then show "completed_at j = None" by (auto simp: j updated_row_def Let_def) }
  { assume "st \<in> {''completed'', ''failed''}" "kw_completed_at kw = None"
    then show "completed_at j = Some now" by (auto simp: j updated_row_def Let_def) }
qed

lemmas eval_defs =
  create_job_eq update_status_for_user_eq update_progress_for_user_eq
  update_rows_def updated_row_def get_job_for_user_def get_job_def
  no_kwargs_def no_create_kwargs_def truthy_text_def or_else_def empty_store_def
  VALID_STATUSES_def Let_def

lemma queued_store_eq:
  "queued_store = \<lparr>users = [], refresh_sessions = [],
     jobs = [\<lparr>job_id = ''j1'', user_id = ''alice'', status = ''queued'', progress_percent = 0,
              error_message = None, input_file = None, results_csv = None, parameters = [],
              created_at = 5, completed_at = None, output_dir = None\<rparr>]\<rparr>"
  by (simp add: queued_store_def eval_defs)

lemma completed_store_eq:
  "completed_store = \<lparr>users = [], refresh_sessions = [],
     jobs = [\<lparr>job_id = ''j1'', user_id = ''alice'', status = ''completed'', progress_percent = 100,
              error_message = None, input_file = None, results_csv = None, parameters = [],
              created_at = 5, completed_at = Some 7, output_dir = None\<rparr>]\<rparr>"
  by (simp add: completed_store_def eval_defs)

theorem completed_at_iff_terminal_witness:
  "job_inv completed_store \<and>
   (\<exists>j. get_job_for_user ''alice'' ''j1'' completed_store = Some j \<and>
        status j = ''completed'' \<and> completed_at j = Some 7) \<and>
   (\<exists>j s'. update_status_for_user 9 ''alice'' ''j1'' ''queued'' no_kwargs completed_store = (Inr j, s')
        \<and> get_job_for_user ''alice'' ''j1'' s' = Some j \<and> completed_at j = None)"
proof -
  obtain j s' where u: "update_status_for_user 9 ''alice'' ''j1'' ''queued'' no_kwargs completed_store = (Inr j, s')"
    by (simp add: completed_store_eq eval_defs)
  from completed_at_iff_terminal
    [where ?s0.0 = empty_store
       and cs = "[CreateJob 5 ''j1'' ''alice'' no_create_kwargs,
                  UpdateStatus 7 ''alice'' ''j1'' ''completed'' no_kwargs]"
       and now = 9 and uid = "''alice''" and jid = "''j1''" and st = "''queued''"
       and kw = no_kwargs and s = completed_store and j = j and s' = s'] u
  have "job_inv completed_store" "get_job_for_user ''alice'' ''j1'' s' = Some j" "completed_at j = None"
    by (simp_all add: completed_store_def job_inv_empty)
  moreover have "\<exists>j. get_job_for_user ''alice'' ''j1'' completed_store = Some j \<and>
        status j = ''completed'' \<and> completed_at j = Some 7"
    by (simp add: completed_store_eq get_job_for_user_def)
  ultimately show ?thesis using u by blast
qed

section \<open>Transitions, the process entry point and progress\<close>

text \<open>
  C10: the store-level transition has no ordering constraint. For a job the user owns
  and a status of the enum it succeeds whatever the current status, storing the new
  status; it raises only the \<open>ValueError\<close> of a status outside the enum, or the
  \<open>KeyError\<close> of an unknown (user, job) pair. The order of the states is enforced
  by \<open>process_job\<close>, which refuses a job that is not \<open>queued\<close>.
\<close>

theorem update_status_any_order:
  "(st \<in> VALID_STATUSES \<longrightarrow> get_job_for_user uid jid s = Some existing \<longrightarrow>
      (\<exists>j s'. update_status_for_user now uid jid st kw s = (Inr j, s') \<and> status j = st \<and>
               get_job_for_user uid jid s' = Some j)) \<and>
   (fst (update_status_for_user now uid jid st kw s) = Inl e \<longrightarrow>
      (st \<notin> VALID_STATUSES \<and> e = ValueError (invalid_status_message st)) \<or>
      (st \<in> VALID_STATUSES \<and> get_job_for_user uid jid s = None \<and>
       e = KeyError (job_not_found_message jid uid))) \<and>
   (get_job_for_user uid jid s = Some existing \<longrightarrow> status existing \<noteq> ''queued'' \<longrightarrow>
      fst (process_job now uid jid s) =
        Inl (HTTPException 400 (cannot_be_processed_detail jid (status existing))))"
  by (auto simp: update_status_for_user_eq get_after_update_rows process_job_def
           split: option.splits)

theorem update_status_any_order_witness:
  "(\<exists>j s'. update_status_for_user 9 ''alice'' ''j1'' ''queued'' no_kwargs completed_store = (Inr j, s')
       \<and> status j = ''queued'' \<and> get_job_for_user ''alice'' ''j1'' s' = Some j) \<and>
   (\<exists>j s'. update_status_for_user 9 ''alice'' ''j1'' ''processing'' no_kwargs completed_store = (Inr j, s')
       \<and> status j = ''processing'' \<and> get_job_for_user ''alice'' ''j1'' s' = Some j) \<and>
   fst (update_status_for_user 9 ''bob'' ''j1'' ''queued'' no_kwargs completed_store) =
     Inl (KeyError (job_not_found_message ''j1'' ''bob'')) \<and>
   fst (update_status_for_user 9 ''alice'' ''j1'' ''done'' no_kwargs completed_store) =
     Inl (ValueError (invalid_status_message ''done'')) \<and>
   fst (process_job 9 ''alice'' ''j1'' completed_store) =
     Inl (HTTPException 400 (cannot_be_processed_detail ''j1'' ''completed''))"
proof -
  have g: "get_job_for_user ''alice'' ''j1'' completed_store = Some (hd (jobs completed_store))"
    by (simp add: completed_store_eq get_job_for_user_def)
  have v: "''queued'' \<in> VALID_STATUSES" "''processing'' \<in> VALID_STATUSES"
    by (simp_all add: VALID_STATUSES_def)
  have 1: "\<exists>j s'. update_status_for_user 9 ''alice'' ''j1'' ''queued'' no_kwargs completed_store = (Inr j, s')
       \<and> status j = ''queued'' \<and> get_job_for_user ''alice'' ''j1'' s' = Some j"
    using update_status_any_order [where st = "''queued''" and uid = "''alice''" and jid = "''j1''"
        and s = completed_store and now = 9 and kw = no_kwargs] g v by blast
  have 2: "\<exists>j s'. update_status_for_user 9 ''alice'' ''j1'' ''processing'' no_kwargs completed_store = (Inr j, s')
       \<and> status j = ''processing'' \<and> get_job_for_user ''alice'' ''j1'' s' = Some j"
    using update_status_any_order [where st = "''processing''" and uid = "''alice''" and jid = "''j1''"
        and s = completed_store and now = 9 and kw = no_kwargs] g v by blast
  have 3: "fst (update_status_for_user 9 ''bob'' ''j1'' ''queued'' no_kwargs completed_store) =
     Inl (KeyError (job_not_found_message ''j1'' ''bob''))"
    by (simp add: completed_store_eq update_status_for_user_eq get_job_for_user_def VALID_STATUSES_def)
  have 4: "fst (update_status_for_user 9 ''alice'' ''j1'' ''done'' no_kwargs completed_store) =
     Inl (ValueError (invalid_status_message ''done''))"
    by (simp add: update_status_for_user_eq VALID_STATUSES_def)
  have 5: "fst (process_job 9 ''alice'' ''j1'' completed_store) =
     Inl (HTTPException 400 (cannot_be_processed_detail ''j1'' ''completed''))"
    using update_status_any_order [where st = "''queued''" and uid = "''alice''" and jid = "''j1''"
        and s = completed_store and now = 9 and kw = no_kwargs
        and existing = "hd (jobs completed_store)"] g
    by (simp add: completed_store_eq)
  from 1 2 3 4 5 show ?thesis by blast
qed

text \<open>
  C5: \<open>process_job\<close> on a job of the caller whose status is not \<open>queued\<close> fails with
  error 400, leaves the store as it was and schedules no task.
\<close>

theorem process_job_requires_queued:
  assumes "get_job_for_user uid jid s = Some j" and "status j \<noteq> ''queued''"
  shows "process_job now uid jid s =
           (Inl (HTTPException 400 (cannot_be_processed_detail jid (status j))), s, [])"
  using assms by (simp add: process_job_def)

theorem process_job_requires_queued_witness:
  "process_job 9 ''alice'' ''j1'' completed_store =
     (Inl (HTTPException 400 (cannot_be_processed_detail ''j1'' ''completed'')), completed_store, [])"
proof -
  have g: "get_job_for_user ''alice'' ''j1'' completed_store = Some (hd (jobs completed_store))"
    by (simp add: completed_store_eq get_job_for_user_def)
  have st: "status (hd (jobs completed_store)) = ''completed''"
    by (simp add: completed_store_eq)
  show ?thesis
    using process_job_requires_queued [OF g, of 9] st by simp
qed

lemma requeued_store_eq:
  "requeued_store = \<lparr>users = [], refresh_sessions = [],
     jobs = [\<lparr>job_id = ''j1'', user_id = ''alice'', status = ''queued'', progress_percent = 0,
              error_message = Some ''bad'', input_file = Some ''/data/uploads/alice/j1/input.csv'',
              results_csv = None, parameters = [],
              created_at = 5, completed_at = None, output_dir = None\<rparr>]\<rparr>"
  by (simp add: requeued_store_def eval_defs save_upload_snd get_upload_path_def path_suffix_def
      path_name_def)

text \<open>
  C6: \<open>process_job\<close> on a queued job marks it \<open>processing\<close> at progress 1 and
  schedules the task, but the \<open>error_message=None\<close> it passes is read as "not supplied":
  a queued job that carries an error message (here a failed job queued again by
  \<open>save_upload\<close>) keeps it.
\<close>

theorem process_job_keeps_prior_error:
  "process_job 9 ''alice'' ''j1'' requeued_store =
     (Inr \<lparr>pr_job_id = ''j1'', pr_status = ''processing'', pr_progress_percent = 1,
           pr_user_id = ''alice'', pr_message = ''Processing started''\<rparr>,
      \<lparr>users = [], refresh_sessions = [],
       jobs = [\<lparr>job_id = ''j1'', user_id = ''alice'', status = ''processing'', progress_percent = 1,
              error_message = Some ''bad'', input_file = Some ''/data/uploads/alice/j1/input.csv'',
              results_csv = None, parameters = [],
              created_at = 5, completed_at = None, output_dir = None\<rparr>]\<rparr>,
      [(''alice'', ''j1'')])"
  by (simp add: process_job_def requeued_store_eq eval_defs)

lemma progress_callback_eq:
  "progress_callback uid jid p s =
     (case get_job_for_user uid jid s of
        None \<Rightarrow> (Inl (KeyError (job_not_found_message jid uid)), s)
      | Some existing \<Rightarrow>
          (Inr (), update_rows uid jid (\<lambda>r. r\<lparr>progress_percent := max 10 (min 95 p)\<rparr>) s))"
  by (simp add: progress_callback_def update_progress_for_user_eq Let_def split: option.splits)

lemma report_all_present:
  "get_job_for_user uid jid s = Some j \<Longrightarrow>
   \<exists>s'. report_all uid jid ps s = (Inr (), s') \<and>
        get_job_for_user uid jid s' =
          Some (j\<lparr>progress_percent := (if ps = [] then progress_percent j
                                        else max 10 (min 95 (last ps)))\<rparr>)"
proof (induction ps arbitrary: s j)
  case Nil
  then show ?case by simp
next
  case (Cons p ps)
  let ?s1 = "update_rows uid jid (\<lambda>r. r\<lparr>progress_percent := max 10 (min 95 p)\<rparr>) s"
  have g1: "get_job_for_user uid jid ?s1 = Some (j\<lparr>progress_percent := max 10 (min 95 p)\<rparr>)"
    using Cons.prems by (simp add: get_after_update_rows)
  from Cons.IH [OF g1] Cons.prems show ?case
    by (auto simp: progress_callback_eq)
qed

text \<open>
  C8: for a job that exists, the progress callback never raises and writes
  \<open>max 10 (min 95 p)\<close>, a value of \<open>[10, 95]\<close>, whatever \<open>p\<close> is; so does every call of a
  run of reports.
\<close>

theorem progress_callback_clamps:
  assumes "get_job_for_user uid jid s = Some j"
  shows "(\<exists>s'. progress_callback uid jid p s = (Inr (), s') \<and>
              get_job_for_user uid jid s' = Some (j\<lparr>progress_percent := max 10 (min 95 p)\<rparr>)) \<and>
         10 \<le> max 10 (min 95 p) \<and> max 10 (min 95 p) \<le> 95 \<and>
         (\<exists>s'. report_all uid jid ps s = (Inr (), s') \<and>
              get_job_for_user uid jid s' =
                Some (j\<lparr>progress_percent := (if ps = [] then progress_percent j
                                              else max 10 (min 95 (last ps)))\<rparr>))"
  using assms report_all_present [OF assms, of ps]
  by (simp add: progress_callback_eq get_after_update_rows)

theorem progress_callback_clamps_witness:
  "(\<exists>s' j'. progress_callback ''alice'' ''j1'' 250 queued_store = (Inr (), s') \<and>
           get_job_for_user ''alice'' ''j1'' s' = Some j' \<and> progress_percent j' = 95) \<and>
   (\<exists>s' j'. progress_callback ''alice'' ''j1'' (- 3) queued_store = (Inr (), s') \<and>
           get_job_for_user ''alice'' ''j1'' s' = Some j' \<and> progress_percent j' = 10) \<and>
   (\<exists>s' j'. report_all ''alice'' ''j1'' [30, 40, 90] queued_store = (Inr (), s') \<and>
           get_job_for_user ''alice'' ''j1'' s' = Some j' \<and> progress_percent j' = 90)"
proof -
  have g: "get_job_for_user ''alice'' ''j1'' queued_store = Some (hd (jobs queued_store))"
    by (simp add: queued_store_eq get_job_for_user_def)
  show ?thesis
    using progress_callback_clamps [OF g, of 250 "[30, 40, 90]"]
          progress_callback_clamps [OF g, of "- 3" "[]"]
    by auto
qed

lemma progress_inv_update_rows:
  assumes "progress_inv s" and "\<And>r. progress_ok (progress_percent r) \<Longrightarrow> progress_ok (progress_percent (f r))"
  shows "progress_inv (update_rows uid jid f s)"
  using assms by (auto simp: progress_inv_def update_rows_def list_all_iff)

lemma get_job_for_user_mem:
  "get_job_for_user uid jid s = Some j \<Longrightarrow> j \<in> set (jobs s)"
  unfolding get_job_for_user_def by (auto simp: find_Some_iff)

lemma progress_inv_update_status:
  assumes "progress_inv s" and "case kw_progress_percent kw of None \<Rightarrow> True | Some p \<Rightarrow> progress_ok p"
  shows "progress_inv (snd (update_status_for_user now uid jid st kw s))"
proof (cases "st \<in> VALID_STATUSES \<and> get_job_for_user uid jid s \<noteq> None")
  case False
  then show ?thesis using assms(1) by (auto simp: update_status_for_user_eq)
next
  case True
  then obtain e where e: "get_job_for_user uid jid s = Some e" by auto
  have pe: "progress_ok (progress_percent e)"
    using get_job_for_user_mem [OF e] assms(1) by (auto simp: progress_inv_def list_all_iff)
  have "progress_ok (progress_percent (updated_row now st kw e r))" for r
    using pe assms(2) by (auto simp: updated_row_def Let_def progress_ok_def split: option.splits)
  then show ?thesis
    using True e assms(1) by (simp add: update_status_for_user_eq progress_inv_update_rows)
qed

lemma progress_inv_exec:
  "progress_inv s \<Longrightarrow> supplied_progress_ok c \<Longrightarrow> progress_inv (exec c s)"
proof (cases c)
  case (CreateJob now uuid uid kw)
  assume "progress_inv s"
  then show ?thesis
    by (auto simp: CreateJob create_job_eq Let_def progress_inv_def progress_ok_def)
next
  case (UpdateStatus now uid jid st kw)
  assume "progress_inv s" "supplied_progress_ok c"
  then show ?thesis by (simp add: UpdateStatus progress_inv_update_status)
next
  case (UpdateProgress uid jid p)
  assume "progress_inv s" "supplied_progress_ok c"
  then show ?thesis
    by (auto simp: UpdateProgress update_progress_for_user_eq intro!: progress_inv_update_rows
             split: option.splits)
next
  case (SaveUpload now dir uid jid name)
  assume "progress_inv s"
  then show ?thesis
    by (simp add: SaveUpload save_upload_snd progress_inv_update_status no_kwargs_def)
next
  case (CreateRefreshSession now j uid expires)
  assume "progress_inv s"
  then show ?thesis by (simp add: CreateRefreshSession progress_inv_def create_refresh_session_def)
next
  case (RevokeRefreshSession now j r)
  assume "progress_inv s"
  then show ?thesis by (simp add: RevokeRefreshSession progress_inv_def revoke_refresh_session_def)
qed

lemma progress_inv_run:
  "progress_inv s \<Longrightarrow> list_all supplied_progress_ok cs \<Longrightarrow> progress_inv (run cs s)"
  by (induction cs arbitrary: s) (simp_all add: progress_inv_exec)

text \<open>
  C9, as the code has it: no operation checks a progress value. \<open>progress_percent\<close>
  stays in \<open>[0, 100]\<close> through every sequence of operations whose supplied progress
  values are in \<open>[0, 100]\<close>. Every operation stores a supplied progress as it is given:
  \<open>update_progress_for_user\<close> always, \<open>update_status_for_user\<close> when a progress is
  supplied; with none supplied a transition writes 100 for \<open>completed\<close> and the job's own
  progress otherwise, and \<open>create_job\<close> writes 0.
\<close>

theorem progress_in_range_if_supplied_in_range:
  "progress_inv empty_store \<and>
   (progress_inv s0 \<longrightarrow> list_all supplied_progress_ok cs \<longrightarrow> progress_inv (run cs s0)) \<and>
   (get_job_for_user uid jid s = Some j \<longrightarrow>
      (\<exists>s'. update_progress_for_user uid jid p s = (Inr (j\<lparr>progress_percent := p\<rparr>), s') \<and>
            get_job_for_user uid jid s' = Some (j\<lparr>progress_percent := p\<rparr>))) \<and>
   (get_job_for_user uid jid s = Some j \<longrightarrow> st \<in> VALID_STATUSES \<longrightarrow>
      (\<exists>j' s'. update_status_for_user now uid jid st kw s = (Inr j', s') \<and>
            get_job_for_user uid jid s' = Some j' \<and>
            progress_percent j' =
              (case kw_progress_percent kw of
                 Some q \<Rightarrow> q
               | None \<Rightarrow> if st = ''completed'' then 100 else progress_percent j))) \<and>
   (create_job now uuid uid ckw s = (Inr j0, s1) \<longrightarrow> progress_percent j0 = 0)"
proof (intro conjI impI)
  show "progress_inv empty_store" by (simp add: progress_inv_def empty_store_def)
next
  assume "progress_inv s0" "list_all supplied_progress_ok cs"
  then show "progress_inv (run cs s0)" by (rule progress_inv_run)
next
  assume "get_job_for_user uid jid s = Some j"
  then show "\<exists>s'. update_progress_for_user uid jid p s = (Inr (j\<lparr>progress_percent := p\<rparr>), s') \<and>
            get_job_for_user uid jid s' = Some (j\<lparr>progress_percent := p\<rparr>)"
    by (simp add: update_progress_for_user_eq get_after_update_rows)
next
  assume "get_job_for_user uid jid s = Some j" "st \<in> VALID_STATUSES"
  then show "\<exists>j' s'. update_status_for_user now uid jid st kw s = (Inr j', s') \<and>
            get_job_for_user uid jid s' = Some j' \<and>
            progress_percent j' =
              (case kw_progress_percent kw of
                 Some q \<Rightarrow> q
               | None \<Rightarrow> if st = ''completed'' then 100 else progress_percent j)"
    by (simp add: update_status_for_user_eq get_after_update_rows updated_row_def Let_def
             split: option.splits)
next
  assume "create_job now uuid uid ckw s = (Inr j0, s1)"
  then show "progress_percent j0 = 0"
    by (auto simp: create_job_eq Let_def split: if_splits)
qed

text \<open>A progress of 150 is recorded as it is.\<close>

theorem progress_out_of_range_counterexample:
  "update_progress_for_user ''alice'' ''j1'' 150 queued_store =
     (Inr \<lparr>job_id = ''j1'', user_id = ''alice'', status = ''queued'', progress_percent = 150,
           error_message = None, input_file = None, results_csv = None, parameters = [],
           created_at = 5, completed_at = None, output_dir = None\<rparr>,
      \<lparr>users = [], refresh_sessions = [],
       jobs = [\<lparr>job_id = ''j1'', user_id = ''alice'', status = ''queued'', progress_percent = 150,
              error_message = None, input_file = None, results_csv = None, parameters = [],
              created_at = 5, completed_at = None, output_dir = None\<rparr>]\<rparr>) \<and>
   \<not> progress_inv (run [CreateJob 5 ''j1'' ''alice'' no_create_kwargs,
                          UpdateProgress ''alice'' ''j1'' 150] empty_store)"
  by (simp add: queued_store_eq eval_defs progress_inv_def progress_ok_def)

theorem progress_in_range_if_supplied_in_range_witness:
  "progress_inv (run [CreateJob 5 ''j1'' ''alice'' no_create_kwargs,
                      UpdateProgress ''alice'' ''j1'' 40,
                      UpdateStatus 7 ''alice'' ''j1'' ''completed'' no_kwargs] empty_store) \<and>
   (\<exists>s' j'. update_progress_for_user ''alice'' ''j1'' 150 queued_store = (Inr j', s') \<and>
            get_job_for_user ''alice'' ''j1'' s' = Some j' \<and> progress_percent j' = 150) \<and>
   (\<exists>s' j'. update_status_for_user 9 ''alice'' ''j1'' ''processing''
              (no_kwargs\<lparr>kw_progress_percent := Some (- 5)\<rparr>) queued_store = (Inr j', s') \<and>
            get_job_for_user ''alice'' ''j1'' s' = Some j' \<and> progress_percent j' = - 5) \<and>
   (\<exists>j0 s1. create_job 9 ''j2'' ''alice'' no_create_kwargs queued_store = (Inr j0, s1) \<and>
            progress_percent j0 = 0)"
proof -
  have g: "get_job_for_user ''alice'' ''j1'' queued_store = Some (hd (jobs queued_store))"
    by (simp add: queued_store_eq get_job_for_user_def)
  have ok: "list_all supplied_progress_ok [CreateJob 5 ''j1'' ''alice'' no_create_kwargs,
                      UpdateProgress ''alice'' ''j1'' 40,
                      UpdateStatus 7 ''alice'' ''j1'' ''completed'' no_kwargs]"
    by (simp add: progress_ok_def no_kwargs_def)
  have v: "''processing'' \<in> VALID_STATUSES" by (simp add: VALID_STATUSES_def)
  obtain j0 s1 where cj: "create_job 9 ''j2'' ''alice'' no_create_kwargs queued_store = (Inr j0, s1)"
    by (simp add: queued_store_eq create_job_eq no_create_kwargs_def truthy_text_def Let_def)
  note th = progress_in_range_if_supplied_in_range
      [where ?s0.0 = empty_store and s = queued_store and uid = "''alice''" and jid = "''j1''"
         and j = "hd (jobs queued_store)" and p = 150 and now = 9 and st = "''processing''"
         and kw = "no_kwargs\<lparr>kw_progress_percent := Some (- 5)\<rparr>"
         and uuid = "''j2''" and ckw = no_create_kwargs and ?j0.0 = j0 and ?s1.0 = s1
         and cs = "[CreateJob 5 ''j1'' ''alice'' no_create_kwargs,
                      UpdateProgress ''alice'' ''j1'' 40,
                      UpdateStatus 7 ''alice'' ''j1'' ''completed'' no_kwargs]"]
  from th ok have a: "progress_inv (run [CreateJob 5 ''j1'' ''alice'' no_create_kwargs,
                      UpdateProgress ''alice'' ''j1'' 40,
                      UpdateStatus 7 ''alice'' ''j1'' ''completed'' no_kwargs] empty_store)"
    by blast
  from th g have b: "\<exists>s' j'. update_progress_for_user ''alice'' ''j1'' 150 queued_store = (Inr j', s') \<and>
            get_job_for_user ''alice'' ''j1'' s' = Some j' \<and> progress_percent j' = 150"
    by auto
  from th g v have c: "\<exists>j' s'. update_status_for_user 9 ''alice'' ''j1'' ''processing''
              (no_kwargs\<lparr>kw_progress_percent := Some (- 5)\<rparr>) queued_store = (Inr j', s') \<and>
            get_job_for_user ''alice'' ''j1'' s' = Some j' \<and>
            progress_percent j' =
              (case kw_progress_percent (no_kwargs\<lparr>kw_progress_percent := Some (- 5)\<rparr>) of
                 Some q \<Rightarrow> q
               | None \<Rightarrow> if ''processing'' = ''completed'' then 100
                         else progress_percent (hd (jobs queued_store)))"
    by blast
  then have c': "\<exists>s' j'. update_status_for_user 9 ''alice'' ''j1'' ''processing''
              (no_kwargs\<lparr>kw_progress_percent := Some (- 5)\<rparr>) queued_store = (Inr j', s') \<and>
            get_job_for_user ''alice'' ''j1'' s' = Some j' \<and> progress_percent j' = - 5"
    by auto
  from th cj have d: "\<exists>j0 s1. create_job 9 ''j2'' ''alice'' no_create_kwargs queued_store = (Inr j0, s1) \<and>
            progress_percent j0 = 0"
    by blast
  from a b c' d show ?thesis by blast
qed

section \<open>Owner-scoped access\<close>













section \<open>Failed executions\<close>

lemma analysis_body_raised:
  assumes g: "get_job_for_user uid jid s = Some j"
    and b: "analysis_body data_dir env now uid jid s = (Some err, s1)"
  shows "\<exists>q. get_job_for_user uid jid s1 = Some (j\<lparr>progress_percent := q\<rparr>)"
proof -
  have j0: "get_job_for_user uid jid s = Some (j\<lparr>progress_percent := progress_percent j\<rparr>)"
    using g by simp
  let ?s1 = "update_rows uid jid (\<lambda>r. r\<lparr>progress_percent := 10\<rparr>) s"
  have g1: "get_job_for_user uid jid ?s1 = Some (j\<lparr>progress_percent := 10\<rparr>)"
    using g by (simp add: get_after_update_rows)
  obtain s2 where r: "report_all uid jid (reported env) ?s1 = (Inr (), s2)"
    and g2: "get_job_for_user uid jid s2 =
      Some (j\<lparr>progress_percent := (if reported env = [] then 10
                                     else max 10 (min 95 (last (reported env))))\<rparr>)"
    using report_all_present [OF g1, of "reported env"] by auto
  have v: "''completed'' \<in> VALID_STATUSES" by (simp add: VALID_STATUSES_def)
  from b have "s1 = s \<or> s1 = ?s1 \<or> s1 = s2"
    unfolding analysis_body_def
    using g r v
    by (auto simp: update_progress_for_user_eq update_status_for_user_eq Let_def
             split: option.splits if_splits sum.splits prod.splits)
  then show ?thesis using j0 g1 g2 by blast
qed

lemma failed_update:
  assumes "get_job_for_user uid jid s1 = Some j1"
  shows "update_status_for_user now uid jid ''failed''
           (no_kwargs\<lparr>kw_error_message := Some m, kw_progress_percent := Some 100,
                      kw_parameters := Some (parameters j1)\<rparr>) s1 =
         (Inr (j1\<lparr>status := ''failed'', progress_percent := 100, error_message := Some m,
                 completed_at := Some now\<rparr>),
          update_rows uid jid
            (updated_row now ''failed''
               (no_kwargs\<lparr>kw_error_message := Some m, kw_progress_percent := Some 100,
                          kw_parameters := Some (parameters j1)\<rparr>) j1) s1)"
  using assms
  by (simp add: update_status_for_user_eq VALID_STATUSES_def updated_row_def no_kwargs_def
        or_else_def Let_def)

lemma run_analysis_raised:
  assumes g: "get_job_for_user uid jid s = Some j"
    and b: "analysis_body data_dir env now uid jid s = (Some err, s1)"
  shows "fst (run_analysis data_dir env now uid jid s) = Inr () \<and>
         get_job_for_user uid jid (snd (run_analysis data_dir env now uid jid s)) =
           Some (j\<lparr>status := ''failed'', progress_percent := 100,
                   error_message := Some (str_error err), completed_at := Some now\<rparr>)"
proof -
  obtain q where g1: "get_job_for_user uid jid s1 = Some (j\<lparr>progress_percent := q\<rparr>)"
    using analysis_body_raised [OF g b] by blast
  show ?thesis
    unfolding run_analysis_def
    using b g1 failed_update [OF g1, of now "str_error err"]
    by (simp add: Let_def get_after_update_rows updated_row_def no_kwargs_def or_else_def)
qed

lemma analysis_body_absent:
  "get_job_for_user uid jid s = None \<Longrightarrow> analysis_body data_dir env now uid jid s = (None, s)"
  by (simp add: analysis_body_def)

lemma run_analysis_returns: "fst (run_analysis data_dir env now uid jid s) = Inr ()"
proof (cases "analysis_body data_dir env now uid jid s")
  case (Pair e s1)
  show ?thesis
  proof (cases e)
    case None
    then show ?thesis using Pair by (simp add: run_analysis_def)
  next
    case (Some err)
    then obtain j where "get_job_for_user uid jid s = Some j"
      using Pair analysis_body_absent [of uid jid s data_dir env now] by (cases "get_job_for_user uid jid s") auto
    then show ?thesis using run_analysis_raised Pair Some by blast
  qed
qed

text \<open>
  C4, as the code has it: no exception leaves \<open>_run_analysis\<close>. When the \<open>try\<close> block
  raises \<open>err\<close>, the job then differs from the job at the start of the execution in its
  progress only, and the execution ends with the job \<open>failed\<close>, at progress 100, with
  error message \<open>str(err)\<close> and with \<open>completed_at\<close> set to the update time; the
  parameter map and every other field are as they were.
\<close>

theorem failed_execution:
  "fst (run_analysis data_dir env now uid jid s) = Inr () \<and>
   (get_job_for_user uid jid s = Some j \<longrightarrow>
    analysis_body data_dir env now uid jid s = (Some err, s1) \<longrightarrow>
      (\<exists>q. get_job_for_user uid jid s1 = Some (j\<lparr>progress_percent := q\<rparr>)) \<and>
      get_job_for_user uid jid (snd (run_analysis data_dir env now uid jid s)) =
        Some (j\<lparr>status := ''failed'', progress_percent := 100,
                error_message := Some (str_error err), completed_at := Some now\<rparr>))"
proof (intro conjI impI)
  show "fst (run_analysis data_dir env now uid jid s) = Inr ()"
    by (rule run_analysis_returns)
next
  assume "get_job_for_user uid jid s = Some j"
    and "analysis_body data_dir env now uid jid s = (Some err, s1)"
  then show "\<exists>q. get_job_for_user uid jid s1 = Some (j\<lparr>progress_percent := q\<rparr>)"
    by (rule analysis_body_raised)
next
  assume "get_job_for_user uid jid s = Some j"
    and "analysis_body data_dir env now uid jid s = (Some err, s1)"
  then show "get_job_for_user uid jid (snd (run_analysis data_dir env now uid jid s)) =
        Some (j\<lparr>status := ''failed'', progress_percent := 100,
                error_message := Some (str_error err), completed_at := Some now\<rparr>)"
    using run_analysis_raised by blast
qed

lemma processing_store_eq:
  "processing_store = \<lparr>users = [], refresh_sessions = [],
     jobs = [\<lparr>job_id = ''j1'', user_id = ''alice'', status = ''processing'', progress_percent = 1,
              error_message = None, input_file = Some ''/data/uploads/alice/j1/input.csv'',
              results_csv = None, parameters = [(''dataset_name'', JStr ''rivers'')],
              created_at = 5, completed_at = None, output_dir = None\<rparr>]\<rparr>"
  by (simp add: processing_store_def eval_defs save_upload_snd get_upload_path_def path_suffix_def
      path_name_def)

lemma boom_body:
  "analysis_body ''/data'' boom_env 20 ''alice'' ''j1'' processing_store =
     (Some (CollaboratorError ''boom''),
      \<lparr>users = [], refresh_sessions = [],
       jobs = [\<lparr>job_id = ''j1'', user_id = ''alice'', status = ''processing'', progress_percent = 30,
              error_message = None, input_file = Some ''/data/uploads/alice/j1/input.csv'',
              results_csv = None, parameters = [(''dataset_name'', JStr ''rivers'')],
              created_at = 5, completed_at = None, output_dir = None\<rparr>]\<rparr>)"
  by (simp add: analysis_body_def boom_env_def processing_store_eq progress_callback_eq eval_defs)

text \<open>
  Status, error and progress are not the only fields a failed execution overwrites:
  \<open>completed_at\<close> goes from null to the update time.
\<close>

theorem failed_execution_sets_completed_at_counterexample:
  "get_job_for_user ''alice'' ''j1'' processing_store =
     Some \<lparr>job_id = ''j1'', user_id = ''alice'', status = ''processing'', progress_percent = 1,
           error_message = None, input_file = Some ''/data/uploads/alice/j1/input.csv'',
           results_csv = None, parameters = [(''dataset_name'', JStr ''rivers'')],
           created_at = 5, completed_at = None, output_dir = None\<rparr> \<and>
   run_analysis ''/data'' boom_env 20 ''alice'' ''j1'' processing_store =
     (Inr (),
      \<lparr>users = [], refresh_sessions = [],
       jobs = [\<lparr>job_id = ''j1'', user_id = ''alice'', status = ''failed'', progress_percent = 100,
              error_message = Some ''boom'', input_file = Some ''/data/uploads/alice/j1/input.csv'',
              results_csv = None, parameters = [(''dataset_name'', JStr ''rivers'')],
              created_at = 5, completed_at = Some 20, output_dir = None\<rparr>]\<rparr>)"
  by (simp add: run_analysis_def boom_body Let_def)
     (simp add: processing_store_eq eval_defs)

theorem failed_execution_witness:
  "fst (run_analysis ''/data'' boom_env 20 ''alice'' ''j1'' processing_store) = Inr () \<and>
   get_job_for_user ''alice'' ''j1''
     (snd (run_analysis ''/data'' boom_env 20 ''alice'' ''j1'' processing_store)) =
     Some \<lparr>job_id = ''j1'', user_id = ''alice'', status = ''failed'', progress_percent = 100,
           error_message = Some ''boom'', input_file = Some ''/data/uploads/alice/j1/input.csv'',
           results_csv = None, parameters = [(''dataset_name'', JStr ''rivers'')],
           created_at = 5, completed_at = Some 20, output_dir = None\<rparr>"
proof -
  have g: "get_job_for_user ''alice'' ''j1'' processing_store = Some (hd (jobs processing_store))"
    by (simp add: processing_store_eq get_job_for_user_def)
  from failed_execution [where data_dir = "''/data''" and env = boom_env and now = 20
      and uid = "''alice''" and jid = "''j1''" and s = processing_store
      and j = "hd (jobs processing_store)" and err = "CollaboratorError ''boom''"
      and ?s1.0 = "snd (analysis_body ''/data'' boom_env 20 ''alice'' ''j1'' processing_store)"]
    g boom_body
  show ?thesis by (simp add: processing_store_eq)
qed

section \<open>Refresh sessions: rotation and revocation\<close>

lemma find_map_pres:
  "(\<And>x. P (g x) = P x) \<Longrightarrow> find P (map g xs) = map_option g (find P xs)"
  by (induction xs) auto

lemma find_append_one:
  "find P (xs @ [x]) = (case find P xs of Some y \<Rightarrow> Some y | None \<Rightarrow> if P x then Some x else None)"
  by (induction xs) auto

lemma get_session_revoke:
  "get_refresh_session j' (revoke_refresh_session now j rb s) =
     map_option (\<lambda>r. if jti r = j
                      then r\<lparr>revoked_at := Some now,
                             replaced_by_jti := or_else rb (replaced_by_jti r)\<rparr>
                      else r) (get_refresh_session j' s)"
  unfolding get_refresh_session_def revoke_refresh_session_def
  by (simp add: find_map_pres)

lemma get_session_SomeD: "get_refresh_session j s = Some r \<Longrightarrow> jti r = j \<and> r \<in> set (refresh_sessions s)"
  unfolding get_refresh_session_def by (auto simp: find_Some_iff)

lemma get_session_None_iff:
  "get_refresh_session j s = None \<longleftrightarrow> (\<forall>r \<in> set (refresh_sessions s). jti r \<noteq> j)"
  unfolding get_refresh_session_def by (auto simp: find_None_iff)

lemma create_refresh_session_fresh:
  assumes "get_refresh_session j s = None"
  shows "create_refresh_session now j uid expires s =
           (Inr (), s\<lparr>refresh_sessions := refresh_sessions s @
                [\<lparr>jti = j, rs_user_id = uid, expires_at = expires, rs_created_at = now,
                  revoked_at = None, replaced_by_jti = None\<rparr>]\<rparr>)"
  using assms by (auto simp: create_refresh_session_def get_session_None_iff)

lemma get_session_create:
  "get_refresh_session j' (snd (create_refresh_session now j uid expires s)) =
     (case get_refresh_session j' s of
        Some r \<Rightarrow> Some r
      | None \<Rightarrow> if j' = j then Some \<lparr>jti = j, rs_user_id = uid, expires_at = expires,
                      rs_created_at = now, revoked_at = None, replaced_by_jti = None\<rparr> else None)"
proof (cases "get_refresh_session j s")
  case None
  then show ?thesis
    by (auto simp: create_refresh_session_fresh get_refresh_session_def find_append_one
             split: option.splits)
next
  case (Some r)
  then have "\<exists>r \<in> set (refresh_sessions s). jti r = j"
    using get_session_SomeD by blast
  then show ?thesis using Some
    by (auto simp: create_refresh_session_def split: option.splits)
qed

lemma sessions_exec_job:
  "refresh_sessions (snd (create_job now uuid uid ckw s)) = refresh_sessions s"
  "refresh_sessions (snd (update_status_for_user now uid jid st kw s)) = refresh_sessions s"
  "refresh_sessions (snd (update_progress_for_user uid jid p s)) = refresh_sessions s"
  "refresh_sessions (snd (save_upload now dir uid jid name s)) = refresh_sessions s"
  by (simp_all add: create_job_eq update_status_for_user_eq update_progress_for_user_eq
        save_upload_snd update_rows_def Let_def split: option.splits)

lemma is_revoked_exec: "is_revoked j s \<Longrightarrow> is_revoked j (exec c s)"
proof (cases c)
  case (CreateRefreshSession now j' uid expires)
  assume "is_revoked j s"
  then show ?thesis
    by (auto simp: CreateRefreshSession is_revoked_def get_session_create split: option.splits)
next
  case (RevokeRefreshSession now j' rb)
  assume "is_revoked j s"
  then show ?thesis
    by (auto simp: RevokeRefreshSession is_revoked_def get_session_revoke split: option.splits)
qed (simp_all add: is_revoked_def get_refresh_session_def sessions_exec_job)

lemma is_revoked_run: "is_revoked j s \<Longrightarrow> is_revoked j (run cs s)"
  by (induction cs arbitrary: s) (simp_all add: is_revoked_exec)

lemma decode_payload: "decode cfg now tok = Inr c \<Longrightarrow> c = payload tok"
  by (auto simp: decode_def split: if_splits)

lemma refresh_tokens_revoked:
  assumes "decode cfg now tok = Inr c" "token_type c = ''refresh''" "token_jti c \<noteq> []"
    and "is_revoked (token_jti c) s"
  shows "refresh_tokens cfg now a r tok s = (Inl (ValueError ''Refresh token revoked''), s)"
  using assms by (auto simp: refresh_tokens_def is_revoked_def split: option.splits)

lemma refresh_tokens_fails_if_revoked:
  assumes "token_type (payload tok) = ''refresh''" "token_jti (payload tok) \<noteq> []"
    and "is_revoked (token_jti (payload tok)) s"
  shows "\<exists>e. fst (refresh_tokens cfg now a r tok s) = Inl e"
proof (cases "decode cfg now tok")
  case (Inl e)
  then show ?thesis by (simp add: refresh_tokens_def)
next
  case (Inr c)
  then show ?thesis
    using refresh_tokens_revoked [OF Inr] assms decode_payload [OF Inr] by simp
qed

lemma timestamp_seconds_lower: "x - 1000000 < timestamp_seconds x * 1000000"
proof (cases "0 \<le> x")
  case True
  have "x = x div 1000000 * 1000000 + x mod 1000000" by simp
  moreover have "x mod 1000000 < 1000000" by simp
  ultimately show ?thesis using True by (simp add: timestamp_seconds_def)
next
  case False
  have "- x = (- x) div 1000000 * 1000000 + (- x) mod 1000000" by simp
  moreover have "0 \<le> (- x) mod 1000000" by simp
  ultimately show ?thesis using False by (simp add: timestamp_seconds_def)
qed

lemma new_refresh_token_decodes:
  assumes "0 < refresh_token_ttl_days cfg"
  shows "decode cfg now
           (encode cfg (build_claims now u ''refresh'' j
              (now + refresh_token_ttl_days cfg * 86400 * 1000000) cfg)) =
         Inr (build_claims now u ''refresh'' j
              (now + refresh_token_ttl_days cfg * 86400 * 1000000) cfg)"
proof -
  let ?x = "now + refresh_token_ttl_days cfg * 86400 * 1000000"
  have "1 \<le> refresh_token_ttl_days cfg" using assms by simp
  then have "now + 1000000 \<le> ?x" by simp
  then have "now < timestamp_seconds ?x * 1000000"
    using timestamp_seconds_lower [of ?x] by linarith
  then show ?thesis
    by (simp add: decode_def encode_def build_claims_def)
qed

lemma issue_token_pair_fresh:
  assumes "get_refresh_session rj s = None"
  shows "issue_token_pair cfg now aj rj u s =
     (Inr \<lparr>access_token = encode cfg (build_claims now u ''access'' aj
                 (now + access_token_ttl_minutes cfg * 60 * 1000000) cfg),
           refresh_token = encode cfg (build_claims now u ''refresh'' rj
                 (now + refresh_token_ttl_days cfg * 86400 * 1000000) cfg),
           pair_token_type = ''bearer'', expires_in = access_token_ttl_minutes cfg * 60\<rparr>,
      snd (create_refresh_session now rj (u_user_id u)
             (now + refresh_token_ttl_days cfg * 86400 * 1000000) s))"
  using assms by (simp add: issue_token_pair_def Let_def create_refresh_session_fresh)

text \<open>
  C3: rotation is single-use. For a refresh token that decodes, whose session is
  neither revoked nor expired and whose user is active, and a fresh \<open>jti\<close> drawn for the
  new refresh token, \<open>refresh_tokens\<close> succeeds: it issues the new pair and persists its
  session, then marks the old session revoked at the time of the call with
  \<open>replaced_by_jti\<close> the new \<open>jti\<close>. After that, whatever store operations come in between,
  every call with the same token fails, and with \<open>ValueError("Refresh token revoked")\<close>
  as long as the token itself still decodes.
\<close>

theorem rotation_single_use:
  assumes d: "decode cfg t1 tok = Inr c"
    and ty: "token_type c = ''refresh''" and nz: "token_jti c \<noteq> []"
    and sess: "get_refresh_session (token_jti c) s = Some session"
    and live: "revoked_at session = None" "t1 < expires_at session"
    and usr: "get_user_by_id (rs_user_id session) s = Some u" "u_is_active u \<noteq> 0"
    and fresh: "get_refresh_session new_jti s = None"
    and ttl: "0 < refresh_token_ttl_days cfg"
  shows "\<exists>pair s1.
           refresh_tokens cfg t1 access_jti new_jti tok s = (Inr pair, s1) \<and>
           s1 = revoke_refresh_session t1 (token_jti c) (Some new_jti)
                  (snd (issue_token_pair cfg t1 access_jti new_jti u s)) \<and>
           token_jti (payload (refresh_token pair)) = new_jti \<and>
           get_refresh_session new_jti s1 =
             Some \<lparr>jti = new_jti, rs_user_id = u_user_id u,
                   expires_at = t1 + refresh_token_ttl_days cfg * 86400 * 1000000,
                   rs_created_at = t1, revoked_at = None, replaced_by_jti = None\<rparr> \<and>
           get_refresh_session (token_jti c) s1 =
             Some (session\<lparr>revoked_at := Some t1, replaced_by_jti := Some new_jti\<rparr>) \<and>
           (\<forall>cs t2 a2 r2. \<exists>e. fst (refresh_tokens cfg t2 a2 r2 tok (run cs s1)) = Inl e) \<and>
           (\<forall>cs t2 a2 r2. decode cfg t2 tok = Inr c \<longrightarrow>
              refresh_tokens cfg t2 a2 r2 tok (run cs s1) =
                (Inl (ValueError ''Refresh token revoked''), run cs s1))"
proof -
  let ?exp = "t1 + refresh_token_ttl_days cfg * 86400 * 1000000"
  let ?new = "\<lparr>jti = new_jti, rs_user_id = u_user_id u, expires_at = ?exp,
                rs_created_at = t1, revoked_at = None, replaced_by_jti = None\<rparr>"
  let ?s' = "snd (create_refresh_session t1 new_jti (u_user_id u) ?exp s)"
  let ?pair = "\<lparr>access_token = encode cfg (build_claims t1 u ''access'' access_jti
                 (t1 + access_token_ttl_minutes cfg * 60 * 1000000) cfg),
           refresh_token = encode cfg (build_claims t1 u ''refresh'' new_jti ?exp cfg),
           pair_token_type = ''bearer'', expires_in = access_token_ttl_minutes cfg * 60\<rparr>"
  let ?s1 = "revoke_refresh_session t1 (token_jti c) (Some new_jti) ?s'"
  have ne: "new_jti \<noteq> token_jti c" using sess fresh by auto
  have iss: "issue_token_pair cfg t1 access_jti new_jti u s = (Inr ?pair, ?s')"
    by (rule issue_token_pair_fresh [OF fresh])
  have dec: "decode cfg t1 (refresh_token ?pair) =
               Inr (build_claims t1 u ''refresh'' new_jti ?exp cfg)"
    using new_refresh_token_decodes [OF ttl] by simp
  have 1: "refresh_tokens cfg t1 access_jti new_jti tok s = (Inr ?pair, ?s1)"
    unfolding refresh_tokens_def
    using d ty nz sess live usr iss dec by (simp add: build_claims_def)
  have 2: "?s1 = revoke_refresh_session t1 (token_jti c) (Some new_jti)
                  (snd (issue_token_pair cfg t1 access_jti new_jti u s))"
    by (simp add: iss)
  have 3: "token_jti (payload (refresh_token ?pair)) = new_jti"
    by (simp add: encode_def build_claims_def)
  have 4: "get_refresh_session new_jti ?s1 = Some ?new"
    using fresh ne by (simp add: get_session_revoke get_session_create)
  have 5: "get_refresh_session (token_jti c) ?s1 =
             Some (session\<lparr>revoked_at := Some t1, replaced_by_jti := Some new_jti\<rparr>)"
    using sess get_session_SomeD [OF sess]
    by (simp add: get_session_revoke get_session_create or_else_def)
  have rev: "is_revoked (token_jti c) (run cs ?s1)" for cs
  proof (rule is_revoked_run)
    show "is_revoked (token_jti c) ?s1" unfolding is_revoked_def by (subst 5) simp
  qed
  have pl: "c = payload tok" by (rule decode_payload [OF d])
  have 6: "\<exists>e. fst (refresh_tokens cfg t2 a2 r2 tok (run cs ?s1)) = Inl e" for cs t2 a2 r2
    using refresh_tokens_fails_if_revoked [of tok "run cs ?s1" cfg t2 a2 r2] ty nz rev pl by simp
  have 7: "refresh_tokens cfg t2 a2 r2 tok (run cs ?s1) =
                (Inl (ValueError ''Refresh token revoked''), run cs ?s1)"
    if "decode cfg t2 tok = Inr c" for cs t2 a2 r2
    by (rule refresh_tokens_revoked [OF that ty nz rev])
  from 1 2 3 4 5 6 7 show ?thesis by blast
qed

lemma issued_store_eq:
  "issued_store = \<lparr>users = [alice_user],
     refresh_sessions = [\<lparr>jti = ''r1'', rs_user_id = ''alice'', expires_at = 1209601000000,
        rs_created_at = 1000000, revoked_at = None, replaced_by_jti = None\<rparr>],
     jobs = []\<rparr>"
  by (simp add: issued_store_def issue_token_pair_def create_refresh_session_def Let_def
      empty_store_def cfg0_def alice_user_def)

lemma issued_token_is_issued:
  "fst (issue_token_pair cfg0 1000000 ''a1'' ''r1'' alice_user (empty_store\<lparr>users := [alice_user]\<rparr>)) =
     Inr \<lparr>access_token = encode cfg0 (build_claims 1000000 alice_user ''access'' ''a1''
                 (1000000 + 30 * 60 * 1000000) cfg0),
          refresh_token = issued_token, pair_token_type = ''bearer'', expires_in = 1800\<rparr>"
  by (simp add: issue_token_pair_def create_refresh_session_def Let_def issued_token_def
      empty_store_def cfg0_def)

lemma issued_token_decodes:
  "t < 1209601000000 \<Longrightarrow> decode cfg0 t issued_token = Inr (payload issued_token)"
  by (simp add: decode_def issued_token_def encode_def build_claims_def cfg0_def
      timestamp_seconds_def)

lemma issued_payload:
  "token_type (payload issued_token) = ''refresh''" "token_jti (payload issued_token) = ''r1''"
  by (simp_all add: issued_token_def encode_def build_claims_def)

theorem rotation_single_use_witness:
  "\<exists>pair s1.
     refresh_tokens cfg0 2000000 ''a2'' ''r2'' issued_token issued_store = (Inr pair, s1) \<and>
     token_jti (payload (refresh_token pair)) = ''r2'' \<and>
     get_refresh_session ''r2'' s1 =
       Some \<lparr>jti = ''r2'', rs_user_id = ''alice'', expires_at = 1209602000000,
             rs_created_at = 2000000, revoked_at = None, replaced_by_jti = None\<rparr> \<and>
     get_refresh_session ''r1'' s1 =
       Some \<lparr>jti = ''r1'', rs_user_id = ''alice'', expires_at = 1209601000000,
             rs_created_at = 1000000, revoked_at = Some 2000000, replaced_by_jti = Some ''r2''\<rparr> \<and>
     refresh_tokens cfg0 3000000 ''a3'' ''r3'' issued_token s1 =
       (Inl (ValueError ''Refresh token revoked''), s1)"
proof -
  let ?session = "\<lparr>jti = ''r1'', rs_user_id = ''alice'', expires_at = 1209601000000,
        rs_created_at = 1000000, revoked_at = None, replaced_by_jti = None\<rparr>"
  have d: "decode cfg0 2000000 issued_token = Inr (payload issued_token)"
    by (simp add: issued_token_decodes)
  have d3: "decode cfg0 3000000 issued_token = Inr (payload issued_token)"
    by (simp add: issued_token_decodes)
  have ty: "token_type (payload issued_token) = ''refresh''"
    and nz: "token_jti (payload issued_token) \<noteq> []"
    by (simp_all add: issued_payload)
  have sess: "get_refresh_session (token_jti (payload issued_token)) issued_store = Some ?session"
    by (simp add: issued_payload issued_store_eq get_refresh_session_def)
  have live: "revoked_at ?session = None" "2000000 < expires_at ?session" by simp_all
  have usr: "get_user_by_id (rs_user_id ?session) issued_store = Some alice_user"
    "u_is_active alice_user \<noteq> 0"
    by (simp_all add: issued_store_eq get_user_by_id_def alice_user_def)
  have fresh: "get_refresh_session ''r2'' issued_store = None"
    by (simp add: issued_store_eq get_refresh_session_def)
  have ttl: "0 < refresh_token_ttl_days cfg0" by (simp add: cfg0_def)
  from rotation_single_use [OF d ty nz sess live usr fresh ttl, of "''a2''"]
  obtain pair s1 where
    1: "refresh_tokens cfg0 2000000 ''a2'' ''r2'' issued_token issued_store = (Inr pair, s1)"
    and 3: "token_jti (payload (refresh_token pair)) = ''r2''"
    and 4: "get_refresh_session ''r2'' s1 =
             Some \<lparr>jti = ''r2'', rs_user_id = u_user_id alice_user,
                   expires_at = 2000000 + refresh_token_ttl_days cfg0 * 86400 * 1000000,
                   rs_created_at = 2000000, revoked_at = None, replaced_by_jti = None\<rparr>"
    and 5: "get_refresh_session (token_jti (payload issued_token)) s1 =
             Some (?session\<lparr>revoked_at := Some 2000000, replaced_by_jti := Some ''r2''\<rparr>)"
    and 7: "\<forall>cs t2 a2 r2. decode cfg0 t2 issued_token = Inr (payload issued_token) \<longrightarrow>
              refresh_tokens cfg0 t2 a2 r2 issued_token (run cs s1) =
                (Inl (ValueError ''Refresh token revoked''), run cs s1)"
    by blast
  from 7 d3 have "refresh_tokens cfg0 3000000 ''a3'' ''r3'' issued_token (run [] s1) =
                (Inl (ValueError ''Refresh token revoked''), run [] s1)"
    by blast
  then have 8: "refresh_tokens cfg0 3000000 ''a3'' ''r3'' issued_token s1 =
                (Inl (ValueError ''Refresh token revoked''), s1)" by simp
  from 4 have new_row: "get_refresh_session ''r2'' s1 =
       Some \<lparr>jti = ''r2'', rs_user_id = ''alice'', expires_at = 1209602000000,
             rs_created_at = 2000000, revoked_at = None, replaced_by_jti = None\<rparr>"
    by (simp add: alice_user_def cfg0_def)
  from 5 have old_row: "get_refresh_session ''r1'' s1 =
       Some \<lparr>jti = ''r1'', rs_user_id = ''alice'', expires_at = 1209601000000,
             rs_created_at = 1000000, revoked_at = Some 2000000, replaced_by_jti = Some ''r2''\<rparr>"
    by (simp add: issued_payload)
  from 1 3 new_row old_row 8 show ?thesis by blast
qed

text \<open>
  C7, as the code has it: for a refresh token that decodes at both times, both calls of
  \<open>revoke_refresh_token\<close> succeed. The second leaves the users, the jobs and every other
  session as they are, and changes the token's session in \<open>revoked_at\<close> only, which
  it overwrites with the time of the second call; \<open>replaced_by_jti\<close> stays. It is a
  no-op exactly when the clock has not moved.
\<close>

theorem revoke_twice:
  assumes d1: "decode cfg t1 tok = Inr c" and d2: "decode cfg t2 tok = Inr c"
    and ty: "token_type c = ''refresh''" and nz: "token_jti c \<noteq> []"
  shows "\<exists>s1 s2.
           revoke_refresh_token cfg t1 tok s = (Inr (), s1) \<and>
           revoke_refresh_token cfg t2 tok s1 = (Inr (), s2) \<and>
           get_refresh_session (token_jti c) s1 =
             map_option (\<lambda>r. r\<lparr>revoked_at := Some t1\<rparr>) (get_refresh_session (token_jti c) s) \<and>
           get_refresh_session (token_jti c) s2 =
             map_option (\<lambda>r. r\<lparr>revoked_at := Some t2\<rparr>) (get_refresh_session (token_jti c) s1) \<and>
           (\<forall>j. j \<noteq> token_jti c \<longrightarrow> get_refresh_session j s2 = get_refresh_session j s1) \<and>
           users s2 = users s1 \<and> jobs s2 = jobs s1 \<and>
           (t2 = t1 \<longrightarrow> s2 = s1)"
proof -
  let ?j = "token_jti c"
  let ?s1 = "revoke_refresh_session t1 ?j None s"
  let ?s2 = "revoke_refresh_session t2 ?j None ?s1"
  have 1: "revoke_refresh_token cfg t1 tok s = (Inr (), ?s1)"
    using d1 ty nz by (simp add: revoke_refresh_token_def)
  have 2: "revoke_refresh_token cfg t2 tok ?s1 = (Inr (), ?s2)"
    using d2 ty nz by (simp add: revoke_refresh_token_def)
  have g: "get_refresh_session ?j (revoke_refresh_session t ?j None s') =
             map_option (\<lambda>r. r\<lparr>revoked_at := Some t\<rparr>) (get_refresh_session ?j s')" for t s'
  proof (cases "get_refresh_session ?j s'")
    case None
    then show ?thesis by (simp add: get_session_revoke)
  next
    case (Some r)
    then show ?thesis
      using get_session_SomeD [OF Some] by (simp add: get_session_revoke or_else_def)
  qed
  have 5: "get_refresh_session j ?s2 = get_refresh_session j ?s1" if "j \<noteq> ?j" for j
  proof (cases "get_refresh_session j ?s1")
    case None
    then show ?thesis by (simp add: get_session_revoke [of j t2])
  next
    case (Some r)
    then show ?thesis
      using get_session_SomeD [OF Some] that by (simp add: get_session_revoke [of j t2])
  qed
  have 6: "users ?s2 = users ?s1" "jobs ?s2 = jobs ?s1"
    by (simp_all add: revoke_refresh_session_def)
  have 7: "?s2 = ?s1" if "t2 = t1"
    using that by (simp add: revoke_refresh_session_def or_else_def cong: if_cong)
  from 1 2 g [of t1 s] g [of t2 ?s1] 5 6 7 show ?thesis by blast
qed

text \<open>
  Revoked at second 2 and again at second 3, the session stored after the second call
  is not the one stored after the first.
\<close>

theorem revoke_twice_counterexample:
  "revoke_refresh_token cfg0 2000000 issued_token issued_store =
     (Inr (),
      \<lparr>users = [alice_user],
       refresh_sessions = [\<lparr>jti = ''r1'', rs_user_id = ''alice'', expires_at = 1209601000000,
          rs_created_at = 1000000, revoked_at = Some 2000000, replaced_by_jti = None\<rparr>],
       jobs = []\<rparr>) \<and>
   revoke_refresh_token cfg0 3000000 issued_token
      \<lparr>users = [alice_user],
       refresh_sessions = [\<lparr>jti = ''r1'', rs_user_id = ''alice'', expires_at = 1209601000000,
          rs_created_at = 1000000, revoked_at = Some 2000000, replaced_by_jti = None\<rparr>],
       jobs = []\<rparr> =
     (Inr (),
      \<lparr>users = [alice_user],
       refresh_sessions = [\<lparr>jti = ''r1'', rs_user_id = ''alice'', expires_at = 1209601000000,
          rs_created_at = 1000000, revoked_at = Some 3000000, replaced_by_jti = None\<rparr>],
       jobs = []\<rparr>)"
  by (simp add: revoke_refresh_token_def issued_token_decodes issued_payload issued_store_eq
        revoke_refresh_session_def or_else_def)

theorem revoke_twice_witness:
  "\<exists>s1 s2.
     revoke_refresh_token cfg0 2000000 issued_token issued_store = (Inr (), s1) \<and>
     revoke_refresh_token cfg0 3000000 issued_token s1 = (Inr (), s2) \<and>
     get_refresh_session ''r1'' s1 =
       Some \<lparr>jti = ''r1'', rs_user_id = ''alice'', expires_at = 1209601000000,
             rs_created_at = 1000000, revoked_at = Some 2000000, replaced_by_jti = None\<rparr> \<and>
     get_refresh_session ''r1'' s2 =
       Some \<lparr>jti = ''r1'', rs_user_id = ''alice'', expires_at = 1209601000000,
             rs_created_at = 1000000, revoked_at = Some 3000000, replaced_by_jti = None\<rparr>"
proof -
  have d: "decode cfg0 2000000 issued_token = Inr (payload issued_token)"
    and d3: "decode cfg0 3000000 issued_token = Inr (payload issued_token)"
    by (simp_all add: issued_token_decodes)
  have ty: "token_type (payload issued_token) = ''refresh''"
    and nz: "token_jti (payload issued_token) \<noteq> []"
    by (simp_all add: issued_payload)
  have sess: "get_refresh_session ''r1'' issued_store =
      Some \<lparr>jti = ''r1'', rs_user_id = ''alice'', expires_at = 1209601000000,
        rs_created_at = 1000000, revoked_at = None, replaced_by_jti = None\<rparr>"
    by (simp add: issued_store_eq get_refresh_session_def)
  from revoke_twice [OF d d3 ty nz, of issued_store]
  obtain s1 s2 where
    1: "revoke_refresh_token cfg0 2000000 issued_token issued_store = (Inr (), s1)"
    and 2: "revoke_refresh_token cfg0 3000000 issued_token s1 = (Inr (), s2)"
    and 3: "get_refresh_session (token_jti (payload issued_token)) s1 =
             map_option (\<lambda>r. r\<lparr>revoked_at := Some 2000000\<rparr>)
               (get_refresh_session (token_jti (payload issued_token)) issued_store)"
    and 4: "get_refresh_session (token_jti (payload issued_token)) s2 =
             map_option (\<lambda>r. r\<lparr>revoked_at := Some 3000000\<rparr>)
               (get_refresh_session (token_jti (payload issued_token)) s1)"
    by blast
  from 3 have first_row: "get_refresh_session ''r1'' s1 =
       Some \<lparr>jti = ''r1'', rs_user_id = ''alice'', expires_at = 1209601000000,
             rs_created_at = 1000000, revoked_at = Some 2000000, replaced_by_jti = None\<rparr>"
    by (simp add: issued_payload sess)
  from 4 first_row have new_row: "get_refresh_session ''r1'' s2 =
       Some \<lparr>jti = ''r1'', rs_user_id = ''alice'', expires_at = 1209601000000,
             rs_created_at = 1000000, revoked_at = Some 3000000, replaced_by_jti = None\<rparr>"
    by (simp add: issued_payload)
  from 1 2 first_row new_row show ?thesis by blast
qed

end
